theory Spec2Isabelle
  imports Complex_Main
begin

section \<open>Images and slicing\<close>

text \<open>
  A frame is a numpy array: \<open>img.shape[0]\<close> is its height, \<open>img.shape[1]\<close> its width.
  The record keeps the shape explicitly (a numpy array with no rows still has a width)
  next to the pixel rows. The pixel type is left open.
\<close>

record 'a image =
  height :: nat
  width :: nat
  rows :: "'a list list"

definition wf_image :: "'a image \<Rightarrow> bool" where
  "wf_image img \<longleftrightarrow>
     length (rows img) = height img \<and> list_all (\<lambda>r. length r = width img) (rows img)"

definition pixel :: "'a image \<Rightarrow> nat \<Rightarrow> nat \<Rightarrow> 'a" where
  "pixel img r c = rows img ! r ! c"

text \<open>
  Python's \<open>a[start:stop]\<close> on a sequence of length \<open>n\<close>: a negative bound counts from
  the end, both bounds are clamped to \<open>0..n\<close>, and the slice is empty when the stop is
  not past the start. The result is the offset of the first element kept and the number
  of elements kept.
\<close>

definition py_slice_bounds :: "nat \<Rightarrow> int \<Rightarrow> int \<Rightarrow> nat \<times> nat" where
  "py_slice_bounds n start stop =
     (let s = (if start < 0 then max (start + int n) 0 else min start (int n));
          e = (if stop < 0 then max (stop + int n) 0 else min stop (int n))
      in (nat s, nat (e - s)))"

text \<open>\<open>img[y0:y1, x0:x1]\<close>: numpy basic slicing, each axis sliced on its own.\<close>

definition np_slice :: "'a image \<Rightarrow> int \<Rightarrow> int \<Rightarrow> int \<Rightarrow> int \<Rightarrow> 'a image" where
  "np_slice img y0 y1 x0 x1 =
     (let (ys, hh) = py_slice_bounds (height img) y0 y1;
          (xs, ww) = py_slice_bounds (width img) x0 x1
      in \<lparr>height = hh, width = ww,
          rows = map (\<lambda>r. take ww (drop xs r)) (take hh (drop ys (rows img)))\<rparr>)"

section \<open>Frame transform stage: \<open>even_image\<close> and \<open>crop_image\<close>\<close>

text \<open>
  \<^verbatim>\<open>
  def even_image(img):
      width = img.shape[1]; height = img.shape[0]
      X_end = width; Y_end = height
      if width % 2 == 1:  X_end -= 1
      if height % 2 == 1: Y_end -= 1
      if X_end != 0 or Y_end != 0:
          return img[0:Y_end, 0:X_end]
      else:
          return img
  \<close>
\<close>

definition even_image :: "'a image \<Rightarrow> 'a image" where
  "even_image img =
     (let X_end = (if int (width img) mod 2 = 1 then int (width img) - 1 else int (width img));
          Y_end = (if int (height img) mod 2 = 1 then int (height img) - 1 else int (height img))
      in if X_end \<noteq> 0 \<or> Y_end \<noteq> 0 then np_slice img 0 Y_end 0 X_end else img)"

text \<open>
  \<^verbatim>\<open>
  def crop_image(img, top_left, botton_right):
      width = img.shape[1]; height = img.shape[0]
      Y_start = top_left[1]
      Y_end = min(botton_right[1], height)
      X_start = top_left[0]
      X_end = min (botton_right[0], width)
      if (X_end - X_start) % 2 == 1: X_end -= 1
      if (Y_end - Y_start) % 2 == 1: Y_end -= 1
      return img[Y_start:Y_end, X_start:X_end]
  \<close>
  Corner points are \<open>(x, y)\<close> pairs of Python integers.
\<close>

definition crop_image :: "'a image \<Rightarrow> int \<times> int \<Rightarrow> int \<times> int \<Rightarrow> 'a image" where
  "crop_image img top_left botton_right =
     (let Y_start = snd top_left;
          Y_end0 = min (snd botton_right) (int (height img));
          X_start = fst top_left;
          X_end0 = min (fst botton_right) (int (width img));
          X_end = (if (X_end0 - X_start) mod 2 = 1 then X_end0 - 1 else X_end0);
          Y_end = (if (Y_end0 - Y_start) mod 2 = 1 then Y_end0 - 1 else Y_end0)
      in np_slice img Y_start Y_end X_start X_end)"

text \<open>A crop rectangle is valid when its corners are ordered and not negative.\<close>

definition valid_crop_rectangle :: "int \<times> int \<Rightarrow> int \<times> int \<Rightarrow> bool" where
  "valid_crop_rectangle top_left botton_right \<longleftrightarrow>
     0 \<le> fst top_left \<and> fst top_left \<le> fst botton_right \<and>
     0 \<le> snd top_left \<and> snd top_left \<le> snd botton_right"

text \<open>The end of a crop that starts at 0, on an axis of length \<open>n\<close>.\<close>

definition crop_end :: "int \<Rightarrow> nat \<Rightarrow> nat" where
  "crop_end b n = min (nat b) n - min (nat b) n mod 2"

text \<open>Sample frames; a pixel is written as the number \<open>10 * row + column\<close>.\<close>

definition frame_1x1 :: "nat image" where
  "frame_1x1 = \<lparr>height = 1, width = 1, rows = [[0]]\<rparr>"

definition frame_3x3 :: "nat image" where
  "frame_3x3 = \<lparr>height = 3, width = 3, rows = [[0, 1, 2], [10, 11, 12], [20, 21, 22]]\<rparr>"

definition frame_2x2 :: "nat image" where
  "frame_2x2 = \<lparr>height = 2, width = 2, rows = [[11, 12], [21, 22]]\<rparr>"

definition frame_empty :: "nat image" where
  "frame_empty = \<lparr>height = 0, width = 0, rows = []\<rparr>"

section \<open>Python numbers\<close>

text \<open>
  Python integers are \<open>int\<close>. Python floats are modelled by exact rationals: the values
  the program computes are quotients of small integers (a frame width over 2028, a
  percentage of a frame dimension), and the rounding error of a float is far below the
  distance of such a quotient to the next integer or half. \<open>int(x)\<close> truncates toward
  zero; \<open>round(x)\<close> rounds to the nearest integer, a half to the even neighbour.
\<close>

definition py_int :: "rat \<Rightarrow> int" where
  "py_int x = (if 0 \<le> x then \<lfloor>x\<rfloor> else \<lceil>x\<rceil>)"

definition py_round :: "rat \<Rightarrow> int" where
  "py_round x =
     (let f = \<lfloor>x\<rfloor>; d = x - of_int f
      in if d < 1 / 2 then f else if 1 / 2 < d then f + 1 else if even f then f else f + 1)"

section \<open>Template registry: \<open>Template.create\<close> and \<open>Template.refresh\<close>\<close>

text \<open>
  The dataclass \<open>Template\<close> of \<^verbatim>\<open>template_manager.py\<close>. Template images are grayscale
  (\<open>cv2.IMREAD_GRAYSCALE\<close>), a pixel is a number. The fields \<open>name\<close>, \<open>type\<close> and
  \<open>size\<close> are written \<open>tname\<close>, \<open>ttype\<close> and \<open>tsize\<close>.
\<close>

record Template =
  tname :: string
  filename :: string
  ttype :: string
  position :: "int \<times> int"
  scale :: rat
  tsize :: "int \<times> int"
  scaled_position :: "int \<times> int"
  scaled_size :: "int \<times> int"
  wb_proportion :: rat
  template :: "nat image option"
  scaled_template :: "nat image option"
  white_pixel_count :: nat

text \<open>
  OpenCV is outside the repository. \<open>cv2.imread\<close> is a function from file names to images
  that gives \<open>None\<close> for a file it cannot read; \<open>cv2.resize\<close> is a function of the image
  and the target size \<open>(width, height)\<close> that gives \<open>None\<close> where OpenCV raises
  \<open>cv2.error\<close> (a target size that is not positive). Both are parameters.
  \<open>cv2.countNonZero\<close> and numpy's \<open>size\<close> are computed from the pixels.
\<close>

type_synonym cv_imread = "string \<Rightarrow> nat image option"
type_synonym cv_resize = "nat image \<Rightarrow> int \<times> int \<Rightarrow> nat image option"

definition countNonZero :: "nat image \<Rightarrow> nat" where
  "countNonZero img = sum_list (map (\<lambda>r. length (filter (\<lambda>p. p \<noteq> 0) r)) (rows img))"

definition np_size :: "nat image \<Rightarrow> nat" where
  "np_size img = height img * width img"

text \<open>
  \<^verbatim>\<open>
  def _resize_image(self, img, ratio):
      if img is None: return None
      width = int(img.shape[1] * ratio)
      height = int(img.shape[0] * ratio)
      return cv2.resize(img, (width, height))
  \<close>
  It is only called on a loaded image.
\<close>

definition resize_image_ratio :: "cv_resize \<Rightarrow> nat image \<Rightarrow> rat \<Rightarrow> nat image option" where
  "resize_image_ratio resize img ratio =
     resize img (py_int (of_nat (width img) * ratio), py_int (of_nat (height img) * ratio))"

text \<open>
  What a call leaves behind: \<open>Refreshed\<close> when it ran to its end, \<open>LoadFailed\<close> when
  the image was missing and could not be read (the early \<open>return\<close> of \<open>refresh\<close>, the
  \<open>else\<close> branch of \<open>create\<close>), \<open>ResizeRaised\<close> when \<open>cv2.resize\<close> raised; the
  template returned with it is the object as the call left it.
\<close>

datatype refresh_result = Refreshed | LoadFailed | ResizeRaised

text \<open>The assignments of both methods after the image is there and the scale is set.\<close>

definition update_dependent :: "cv_resize \<Rightarrow> Template \<Rightarrow> nat image \<Rightarrow> refresh_result \<times> Template" where
  "update_dependent resize self img =
     (case resize_image_ratio resize img (scale self) of
        None \<Rightarrow> (ResizeRaised, self)
      | Some sc \<Rightarrow>
          (let sz = (int (width img), int (height img)) in
           (Refreshed,
            self\<lparr>scaled_template := Some sc,
                 white_pixel_count := countNonZero sc,
                 wb_proportion :=
                   (if 0 < np_size sc then of_nat (countNonZero sc) / of_nat (np_size sc) else 1 / 2),
                 tsize := sz,
                 scaled_size := (py_int (of_int (fst sz) * scale self), py_int (of_int (snd sz) * scale self)),
                 scaled_position :=
                   (py_int (of_int (fst (position self)) * scale self),
                    py_int (of_int (snd (position self)) * scale self))\<rparr>)))"

text \<open>
  \<^verbatim>\<open>
  def refresh(self, width: int):
      new_scale = 1.0 if self.type == 'custom' else width / 2028
      if self.template is None:
          self.template = cv2.imread(self.filename, cv2.IMREAD_GRAYSCALE)
          if self.template is None:
              logging.error(...)
              return
      self.scale = new_scale
      self.scaled_template = self._resize_image(self.template, self.scale)
      self.white_pixel_count = cv2.countNonZero(self.scaled_template)
      total_pixels = self.scaled_template.size
      self.wb_proportion = self.white_pixel_count / total_pixels if total_pixels > 0 else 0.5
      self.size = (self.template.shape[1], self.template.shape[0])
      self.scaled_size = (int(self.size[0] * self.scale), int(self.size[1] * self.scale))
      self.scaled_position = (int(self.position[0] * self.scale), int(self.position[1] * self.scale))
  \<close>
\<close>

definition refresh :: "cv_imread \<Rightarrow> cv_resize \<Rightarrow> Template \<Rightarrow> int \<Rightarrow> refresh_result \<times> Template" where
  "refresh imread resize self w =
     (let new_scale = (if ttype self = ''custom'' then 1 else of_int w / 2028);
          loaded = (case template self of None \<Rightarrow> imread (filename self) | Some i \<Rightarrow> Some i)
      in case loaded of
           None \<Rightarrow> (LoadFailed, self)
         | Some img \<Rightarrow> update_dependent resize (self\<lparr>template := Some img, scale := new_scale\<rparr>) img)"

text \<open>
  The factory method \<open>Template.create\<close>: the same scale, and, when the file exists, the
  same dependent assignments (with \<open>int\<close>, as in \<open>refresh\<close>). \<open>os.path.isfile\<close> is a
  parameter; a file that exists and does not decode makes \<open>cv2.imread\<close> return \<open>None\<close>
  and the next line raise, which is \<open>ResizeRaised\<close> here.
\<close>

definition create :: "(string \<Rightarrow> bool) \<Rightarrow> cv_imread \<Rightarrow> cv_resize \<Rightarrow>
    string \<Rightarrow> string \<Rightarrow> string \<Rightarrow> int \<times> int \<Rightarrow> int \<Rightarrow> refresh_result \<times> Template" where
  "create isfile imread resize nm fn ty pos w =
     (let instance = \<lparr>tname = nm, filename = fn, ttype = ty, position = pos,
            scale = (if ty = ''custom'' then 1 else of_int w / 2028),
            tsize = (0, 0), scaled_position = (0, 0), scaled_size = (0, 0),
            wb_proportion = 1 / 2, template = None, scaled_template = None,
            white_pixel_count = 0\<rparr>
      in if isfile fn then
           (case imread fn of
              None \<Rightarrow> (ResizeRaised, instance)
            | Some img \<Rightarrow> update_dependent resize (instance\<lparr>template := Some img\<rparr>) img)
         else (LoadFailed, instance))"

text \<open>
  A sample registry: one pattern file holding a 2 by 2 image, a resize that fills the
  target size with the top left pixel of its source, and a default template whose hole
  position is \<open>(1, 1)\<close> in the 2028 pixel wide reference frame.
\<close>

definition sample_imread :: cv_imread where
  "sample_imread fn = (if fn = ''Pattern.S8.jpg'' then Some frame_2x2 else None)"

definition sample_resize :: cv_resize where
  "sample_resize img dsize =
     (if 0 < fst dsize \<and> 0 < snd dsize then
        Some \<lparr>height = nat (snd dsize), width = nat (fst dsize),
              rows = replicate (nat (snd dsize)) (replicate (nat (fst dsize)) (pixel img 0 0))\<rparr>
      else None)"

definition sample_template :: "string \<Rightarrow> Template" where
  "sample_template fn =
     \<lparr>tname = ''S8'', filename = fn, ttype = ''S8'', position = (1, 1), scale = 1,
      tsize = (0, 0), scaled_position = (0, 0), scaled_size = (0, 0), wb_proportion = 1 / 2,
      template = None, scaled_template = None, white_pixel_count = 0\<rparr>"

section \<open>The state of \<^verbatim>\<open>AfterScan.py\<close>\<close>

text \<open>
  The program keeps its state in module globals and Tk variables and is driven by Tk
  callbacks. The model is explicit state passing: a record of the globals the alignment
  engine, the frame loop, the encoder loop and the job loop read or write, and one
  function per source function, from the state before to the state after. Widget
  configuration (button texts, colours of list entries, the slider), the preview display,
  the saving of configuration files and \<open>logging.debug\<close>/\<open>logging.info\<close> lines are left
  out, but for the \<open>Processing ...\<close> line of the job loop; warnings, errors, message
  boxes, the status label, files written and removed, processes started and callbacks
  scheduled are recorded in the state. \<open>raised\<close> is set when a callback ends in a Python
  exception; the model follows a run up to there.
\<close>

type_synonym frame = "nat image"

datatype ffmpeg_state = Pending | Running | Completed

datatype colour = Black | Red | Green

text \<open>The texts the status label is set to.\<close>

datatype status_msg =
    StatusIdle
  | StatusFrameGenerationOK
  | StatusCancelledByUser
  | StatusOddSize int
  | StatusGeneratingFrames rat
  | StatusNoFramesToEncode
  | StatusGeneratingVideo rat
  | StatusSyncLost
  | StatusNoFeedback
  | StatusVideoGeneratedOK
  | StatusVideoGenerationFailed

text \<open>\<open>logging.warning\<close> and \<open>logging.error\<close> lines, and the job loop's \<open>Processing\<close> line.\<close>

datatype log_entry =
    LogTemplateBigger nat nat int int
  | LogFrameAlignTag string int int
  | LogFrameAlignTag2 string int rat rat rat
  | LogErrorReadingFrame int
  | LogOddDimension
  | LogVideoTerminated string
  | LogSyncLost string
  | LogVideoFailed string
  | LogProcessing string int int

text \<open>Message boxes, by their titles.\<close>

datatype dialog =
    WrongFilmTypeDetected
  | NoFramesMatchRange
  | OverwriteVideo
  | TemplateBiggerThanSearchArea
  | NoFramesMatchRangeToGenerateVideo
  | FramesMissing
  | FfmpegInterruptedByUser
  | VideoGenerationEnded
  | FfmpegEncodingFailed
  | NoFilesMatchPattern

text \<open>The functions handed to \<open>win.after\<close>.\<close>

datatype callback = FrameGenerationLoop | VideoGenerationLoop | JobProcessingLoop

text \<open>\<open>CurrentJobEntry\<close> is a key of \<open>job_list\<close> or the integer \<open>-1\<close>.\<close>

datatype job_ref = Entry string | NoEntry

text \<open>
  A project configuration: the dictionary \<open>project_config\<close>, and the snapshot of it that
  a job entry keeps (its \<open>'done'\<close> flag is \<open>done_flag\<close>). The record holds, under each key, the value \<open>decode_project_config\<close>
  assigns for it (the defaults for absent keys are taken at this boundary; the on-disk
  format is outside the scope of the specification).
\<close>

record project =
  p_SourceDir :: string
  p_TargetDir :: string
  p_VideoTargetDir :: string
  p_FrameInputFilenamePattern :: string
  p_FilmType :: string
  p_CurrentFrame :: int
  p_EncodeAllFrames :: bool
  p_FrameFrom :: int
  p_FrameTo :: int
  p_RotationAngle :: rat
  p_StabilizationThreshold :: rat
  p_CustomTemplateDefined :: bool
  p_CustomTemplateExpectedPos :: "rat \<times> rat"
  p_CustomTemplateFilename :: string
  p_PerformCropping :: bool
  p_CropRectangle :: "(int \<times> int) \<times> (int \<times> int)"
  p_GenerateVideo :: bool
  p_VideoFilename :: string
  p_skip_frame_regeneration :: bool
  p_HoleHeight :: "int option"
  p_PerformStabilization :: bool
  p_PerformRotation :: bool

record job_entry =
  job_project :: project
  done_flag :: bool

record afterscan =
  project_config :: project
  film_type :: string
  CustomTemplateDefined :: bool
  pattern_filename :: string
  pattern_filename_custom :: string
  expected_pattern_pos :: "rat \<times> rat"
  expected_pattern_pos_custom :: "rat \<times> rat"
  film_hole_template :: frame
  film_bw_template :: frame
  film_wb_template :: frame
  film_hole_height :: int
  StabilizeAreaDefined :: bool
  HoleSearchTopLeft :: "int \<times> int"
  HoleSearchBottomRight :: "int \<times> int"
  StabilizationThreshold :: rat
  CropTopLeft :: "int \<times> int"
  CropBottomRight :: "int \<times> int"
  RotationAngle :: rat
  BatchJobRunning :: bool
  ConvertLoopRunning :: bool
  ConvertLoopExitRequested :: bool
  ExpertMode :: bool
  stabilization_bounds_alert_counter :: nat
  perform_rotation :: bool
  perform_stabilization :: bool
  perform_cropping :: bool
  generate_video :: bool
  skip_frame_regeneration :: bool
  encode_all_frames :: bool
  frame_from_str :: int
  frame_to_str :: int
  CurrentFrame :: int
  StartFrame :: int
  frames_to_encode :: int
  first_absolute_frame :: int
  SourceDirFileList :: "string list"
  TargetDirFileList :: "string list"
  SourceDir :: string
  TargetDir :: string
  VideoTargetDir :: string
  TargetVideoFilename :: string
  video_filename_name :: string
  project_name :: string
  ffmpeg_success :: bool
  ffmpeg_encoding_status :: ffmpeg_state
  ffmpeg_stdout :: "string list"
  job_list :: "(string \<times> job_entry) list"
  CurrentJobEntry :: job_ref
  suspend_on_joblist_end :: bool
  app_status_label :: "status_msg \<times> colour"
  logged :: "log_entry list"
  dialogs :: "dialog list"
  disk :: "string list"
  written :: "(string \<times> frame) list"
  spawned :: "(int \<times> int) list"
  removed :: "string list"
  scheduled :: "callback list"
  suspended :: nat
  raised :: bool

text \<open>
  What the program gets from outside: OpenCV, the file system, the user and the encoder.
  \<^item> \<open>w_imread\<close>: \<open>cv2.imread\<close> of a frame file, \<open>None\<close> for a file that does not decode;
  \<^item> \<open>w_imread_pattern\<close>: \<open>cv2.imread(_, 0)\<close> of a hole pattern file (\<open>main\<close> exits at
    startup when a pattern file is missing);
  \<^item> \<open>w_match\<close>: for a template and an image, the \<open>max_loc\<close> that \<open>cv2.minMaxLoc\<close>
    finds in \<open>cv2.matchTemplate(_, _, cv2.TM_CCOEFF_NORMED)\<close> of the blurred grey image;
  \<^item> \<open>w_warp\<close>: \<open>cv2.warpAffine\<close> with the translation \<open>(move_x, move_y)\<close>, output of
    the input's size; \<open>w_rotate\<close>: the rotation of \<open>rotate_image\<close> by an angle;
    \<open>w_resize\<close>: \<open>cv2.resize\<close> to a size \<open>(width, height)\<close>;
  \<^item> \<open>w_isdir\<close>, \<open>w_isfile\<close>: \<open>os.path.isdir\<close>, \<open>os.path.isfile\<close>;
  \<^item> \<open>w_glob\<close>: the sorted \<open>glob\<close> of a source directory for a file name pattern;
  \<^item> \<open>w_askyesno\<close>: the user's answer to a yes/no box;
  \<^item> \<open>w_ffmpeg_output\<close>, \<open>w_ffmpeg_exit\<close>: the lines the encoder prints and its exit
    code.
  Calls into OpenCV and the operating system are taken to return.
\<close>

record world =
  w_imread :: "string \<Rightarrow> frame option"
  w_imread_pattern :: "string \<Rightarrow> frame"
  w_match :: "frame \<Rightarrow> frame \<Rightarrow> int \<times> int"
  w_warp :: "frame \<Rightarrow> rat \<times> rat \<Rightarrow> frame"
  w_rotate :: "frame \<Rightarrow> rat \<Rightarrow> frame"
  w_resize :: "frame \<Rightarrow> int \<times> int \<Rightarrow> frame"
  w_isdir :: "string \<Rightarrow> bool"
  w_isfile :: "string \<Rightarrow> bool"
  w_glob :: "string \<Rightarrow> string \<Rightarrow> string list"
  w_askyesno :: "dialog \<Rightarrow> bool"
  w_ffmpeg_output :: "string list"
  w_ffmpeg_exit :: int

section \<open>Alignment engine\<close>

text \<open>Constants of the module.\<close>

definition pattern_filename_s8 :: string where "pattern_filename_s8 = ''Pattern.S8.jpg''"
definition pattern_filename_r8 :: string where "pattern_filename_r8 = ''Pattern.R8.jpg''"
definition expected_pattern_pos_s8 :: "rat \<times> rat" where "expected_pattern_pos_s8 = (13 / 2, 34)"
definition expected_pattern_pos_r8 :: "rat \<times> rat" where "expected_pattern_pos_r8 = (4, 11)"
definition default_hole_height_s8 :: int where "default_hole_height_s8 = 344"
definition default_interhole_height_r8 :: int where "default_interhole_height_r8 = 808"

text \<open>
  \<^verbatim>\<open>
  def match_template(template, img, thres):
      w = template.shape[1]; h = template.shape[0]
      if (w >= img.shape[1] or h >= img.shape[0]):
          logging.error("Template (%ix%i) bigger than image  (%ix%i)", ...)
          return (0, 0)
      ...
      res = cv2.matchTemplate(img_blur, template, cv2.TM_CCOEFF_NORMED)
      min_val, max_val, min_loc, max_loc = cv2.minMaxLoc(res)
      top_left = max_loc
      return top_left
  \<close>
  The result is an \<open>(x, y)\<close> pair on both paths; the parameter \<open>thres\<close> is not used.
\<close>

definition match_template ::
    "world \<Rightarrow> frame \<Rightarrow> frame \<Rightarrow> rat \<Rightarrow> afterscan \<Rightarrow> afterscan \<times> (int \<times> int)" where
  "match_template wd tmpl img thres st =
     (if width img \<le> width tmpl \<or> height img \<le> height tmpl then
        (st\<lparr>logged := logged st @
              [LogTemplateBigger (width tmpl) (height tmpl) (int (width img)) (int (height img))]\<rparr>,
         (0, 0))
      else (st, w_match wd tmpl img))"

text \<open>
  \<^verbatim>\<open>
  def validate_template_size():
      template_width = film_hole_template.shape[1]
      template_height = film_hole_template.shape[0]
      image_width = HoleSearchBottomRight[0] - HoleSearchTopLeft[0]
      image_height = HoleSearchBottomRight[1] - HoleSearchTopLeft[1]
      if (template_width >= image_width or template_height >= image_height):
          logging.error(...)
          return False
      else:
          return True
  \<close>
\<close>

definition validate_template_size :: "afterscan \<Rightarrow> afterscan \<times> bool" where
  "validate_template_size st =
     (let template_width = width (film_hole_template st);
          template_height = height (film_hole_template st);
          image_width = fst (HoleSearchBottomRight st) - fst (HoleSearchTopLeft st);
          image_height = snd (HoleSearchBottomRight st) - snd (HoleSearchTopLeft st)
      in if image_width \<le> int template_width \<or> image_height \<le> int template_height then
           (st\<lparr>logged := logged st @
                 [LogTemplateBigger template_width template_height image_width image_height]\<rparr>,
            False)
         else (st, True))"

text \<open>\<open>resize_image(img, percent)\<close>: the size is \<open>int(shape * percent / 100)\<close> on each axis.\<close>

definition resize_image :: "world \<Rightarrow> frame \<Rightarrow> rat \<Rightarrow> frame" where
  "resize_image wd img percent =
     w_resize wd img (py_int (of_nat (width img) * percent / 100),
                      py_int (of_nat (height img) * percent / 100))"

text \<open>\<open>get_image_left_stripe(img)\<close>: the slice of the frame given by the hole search area.\<close>

definition get_image_left_stripe :: "afterscan \<Rightarrow> frame \<Rightarrow> frame" where
  "get_image_left_stripe st img =
     np_slice img (snd (HoleSearchTopLeft st)) (snd (HoleSearchBottomRight st))
                  (fst (HoleSearchTopLeft st)) (fst (HoleSearchBottomRight st))"

text \<open>
  \<^verbatim>\<open>
  def set_hole_search_area(img):
      HoleSearchTopLeft = (0, 0)
      HoleSearchBottomRight = (round(width * 0.20), height)
  \<close>
\<close>

definition set_hole_search_area :: "frame \<Rightarrow> afterscan \<Rightarrow> afterscan" where
  "set_hole_search_area img st =
     st\<lparr>HoleSearchTopLeft := (0, 0),
        HoleSearchBottomRight := (py_round (of_nat (width img) * (1 / 5)), int (height img))\<rparr>"

text \<open>
  \<^verbatim>\<open>
  def adjust_hole_pattern_size():
      if film_hole_height <= 0 or CustomTemplateDefined:
          return
      ratio = 1
      if project_config["FilmType"] == 'S8':
          ratio = film_hole_height / default_hole_height_s8
      elif project_config["FilmType"] == 'R8':
          ratio = film_hole_height / default_interhole_height_r8
      film_hole_template = resize_image(film_hole_template, ratio*100)
  \<close>
\<close>

definition adjust_hole_pattern_size :: "world \<Rightarrow> afterscan \<Rightarrow> afterscan" where
  "adjust_hole_pattern_size wd st =
     (if film_hole_height st \<le> 0 \<or> CustomTemplateDefined st then st
      else
        (let ratio =
               (if p_FilmType (project_config st) = ''S8''
                  then of_int (film_hole_height st) / of_int default_hole_height_s8
                else if p_FilmType (project_config st) = ''R8''
                  then of_int (film_hole_height st) / of_int default_interhole_height_r8
                else 1)
         in st\<lparr>film_hole_template := resize_image wd (film_hole_template st) (ratio * 100)\<rparr>))"

text \<open>
  \<^verbatim>\<open>
  def set_film_type():
      if CustomTemplateDefined:
          if os.path.isfile(pattern_filename_custom):
              pattern_filename = pattern_filename_custom
              expected_pattern_pos = expected_pattern_pos_custom
          else:
              CustomTemplateDefined = False
      if not CustomTemplateDefined:
          if film_type.get() == 'S8':
              pattern_filename = pattern_filename_s8
              expected_pattern_pos = expected_pattern_pos_s8
          elif film_type.get() == 'R8':
              pattern_filename = pattern_filename_r8
              expected_pattern_pos = expected_pattern_pos_r8
      project_config["FilmType"] = film_type.get()
      film_hole_template = cv2.imread(pattern_filename, 0)
      adjust_hole_pattern_size()
  \<close>
\<close>

definition set_film_type :: "world \<Rightarrow> afterscan \<Rightarrow> afterscan" where
  "set_film_type wd st =
     (let st1 =
            (if CustomTemplateDefined st then
               (if w_isfile wd (pattern_filename_custom st) then
                  st\<lparr>pattern_filename := pattern_filename_custom st,
                     expected_pattern_pos := expected_pattern_pos_custom st\<rparr>
                else st\<lparr>CustomTemplateDefined := False\<rparr>)
             else st);
          st2 =
            (if \<not> CustomTemplateDefined st1 then
               (if film_type st1 = ''S8'' then
                  st1\<lparr>pattern_filename := pattern_filename_s8,
                      expected_pattern_pos := expected_pattern_pos_s8\<rparr>
                else if film_type st1 = ''R8'' then
                  st1\<lparr>pattern_filename := pattern_filename_r8,
                      expected_pattern_pos := expected_pattern_pos_r8\<rparr>
                else st1)
             else st1);
          st3 = st2\<lparr>project_config := (project_config st2)\<lparr>p_FilmType := film_type st2\<rparr>\<rparr>;
          st4 = st3\<lparr>film_hole_template := w_imread_pattern wd (pattern_filename st3)\<rparr>
      in adjust_hole_pattern_size wd st4)"

text \<open>
  \<^verbatim>\<open>
  def determine_hole_height(img):
      if project_config["FilmType"] == 'R8':
          template_1 = film_wb_template; template_2 = film_bw_template
          other_film_type = 'S8'
      else:   # S8 by default
          template_1 = film_bw_template; template_2 = film_wb_template
          other_film_type = 'R8'
      search_img = get_image_left_stripe(img)
      top_left_1 = match_template(template_1, search_img, 230)
      top_left_2 = match_template(template_2, search_img, 230)
      if top_left_1[1] > top_left_2[1]:
          if not BatchJobRunning:
              if tk.messagebox.askyesno("Wrong film type detected", ...):
                  film_type.set(other_film_type)
                  project_config["FilmType"] = other_film_type
                  set_film_type()
                  top_left_aux = top_left_1
                  top_left_1 = top_left_2
                  top_left_2 = top_left_aux
      return top_left_2[1]-top_left_1[1]
  \<close>
\<close>

definition determine_hole_height :: "world \<Rightarrow> frame \<Rightarrow> afterscan \<Rightarrow> afterscan \<times> int" where
  "determine_hole_height wd img st =
     (let r8 = (p_FilmType (project_config st) = ''R8'');
          template_1 = (if r8 then film_wb_template st else film_bw_template st);
          template_2 = (if r8 then film_bw_template st else film_wb_template st);
          other_film_type = (if r8 then ''S8'' else ''R8'');
          search_img = get_image_left_stripe st img;
          (st1, top_left_1) = match_template wd template_1 search_img 230 st;
          (st2, top_left_2) = match_template wd template_2 search_img 230 st1
      in if snd top_left_2 < snd top_left_1 \<and> \<not> BatchJobRunning st2 then
           (let st3 = st2\<lparr>dialogs := dialogs st2 @ [WrongFilmTypeDetected]\<rparr>
            in if w_askyesno wd WrongFilmTypeDetected then
                 (set_film_type wd
                    (st3\<lparr>film_type := other_film_type,
                         project_config := (project_config st3)\<lparr>p_FilmType := other_film_type\<rparr>\<rparr>),
                  snd top_left_1 - snd top_left_2)
               else (st3, snd top_left_2 - snd top_left_1))
         else (st2, snd top_left_2 - snd top_left_1))"

text \<open>
  \<^verbatim>\<open>
  def select_hole_height(work_image):
      film_hole_height = determine_hole_height(work_image)
      if film_hole_height < 0:
          film_hole_height = 0
          StabilizeAreaDefined = False
          perform_stabilization.set(False)
      else:
          StabilizeAreaDefined = True
          adjust_hole_pattern_size()
  \<close>
\<close>

definition select_hole_height :: "world \<Rightarrow> frame \<Rightarrow> afterscan \<Rightarrow> afterscan" where
  "select_hole_height wd work_image st =
     (let (st1, h) = determine_hole_height wd work_image st
      in if h < 0 then
           st1\<lparr>film_hole_height := 0, StabilizeAreaDefined := False, perform_stabilization := False\<rparr>
         else
           adjust_hole_pattern_size wd (st1\<lparr>film_hole_height := h, StabilizeAreaDefined := True\<rparr>))"

text \<open>\<open>rotate_image(img)\<close>: rotation about the centre by \<open>RotationAngle\<close>, same size.\<close>

definition rotate_image :: "world \<Rightarrow> afterscan \<Rightarrow> frame \<Rightarrow> frame" where
  "rotate_image wd st img = w_rotate wd img (RotationAngle st)"

text \<open>
  The local variables of \<open>stabilize_image\<close>: the match translated to frame coordinates
  (\<open>top_left\<close> after its second assignment, \<open>abs_top_left\<close> here), the shift, and the
  two overflow estimates.
  \<^verbatim>\<open>
      top_left = match_template(film_hole_template, left_stripe_image, float(StabilizationThreshold))
      top_left = (top_left[0] + HoleSearchTopLeft[0], top_left[1] + HoleSearchTopLeft[1])
      if CustomTemplateDefined:   # For custom template, expected position is absolute
          move_x = expected_pattern_pos[0] - top_left[0]
          move_y = expected_pattern_pos[1] - top_left[1]
      else:
          move_x = round((expected_pattern_pos[0] * width / 100)) - top_left[0]
          move_y = round((expected_pattern_pos[1] * height / 100)) - top_left[1]
      missing_bottom = height - CropBottomRight[1] + move_y
      missing_top = CropTopLeft[1] - move_y
  \<close>
\<close>

record alignment =
  abs_top_left :: "int \<times> int"
  move_x :: rat
  move_y :: rat
  missing_bottom :: rat
  missing_top :: rat

definition stabilize_alignment :: "afterscan \<Rightarrow> frame \<Rightarrow> int \<times> int \<Rightarrow> alignment" where
  "stabilize_alignment st img matched =
     (let tl = (fst matched + fst (HoleSearchTopLeft st), snd matched + snd (HoleSearchTopLeft st));
          mx = (if CustomTemplateDefined st then fst (expected_pattern_pos st) - of_int (fst tl)
                else of_int (py_round (fst (expected_pattern_pos st) * of_nat (width img) / 100))
                       - of_int (fst tl));
          my = (if CustomTemplateDefined st then snd (expected_pattern_pos st) - of_int (snd tl)
                else of_int (py_round (snd (expected_pattern_pos st) * of_nat (height img) / 100))
                       - of_int (snd tl))
      in \<lparr>abs_top_left = tl, move_x = mx, move_y = my,
          missing_bottom = of_nat (height img) - of_int (snd (CropBottomRight st)) + my,
          missing_top = of_int (snd (CropTopLeft st)) - my\<rparr>)"

text \<open>
  The rest of \<open>stabilize_image\<close>: the alert and the log line, then the translation.
  \<^verbatim>\<open>
      if ConvertLoopRunning and (missing_bottom < 0 or missing_top < 0):
          if ExpertMode:
              stabilization_bounds_alert_counter += 1
              ...
          if missing_bottom < 0:
              missing_rows = -missing_bottom
          if missing_top < 0:
              missing_rows = missing_top
          project_name_tag = project_name + '(' + video_filename_name.get() + ')'
          project_name_tag = project_name_tag.replace(',', ';')
          logging.warning("FrameAlignTag-2, %s, %i, %i, %i, %i", project_name_tag,
                          CurrentFrame, missing_rows, move_y, move_x)
      translation_matrix = np.array([[1, 0, move_x], [0, 1, move_y]], dtype=np.float32)
      translated_image = cv2.warpAffine(src=img, M=translation_matrix, dsize=(width, height))
      return translated_image
  \<close>
\<close>

definition project_name_tag :: "afterscan \<Rightarrow> string" where
  "project_name_tag st =
     map (\<lambda>c. if c = CHR '','' then CHR '';'' else c)
       (project_name st @ ''('' @ video_filename_name st @ '')'')"

definition stabilize_image :: "world \<Rightarrow> frame \<Rightarrow> afterscan \<Rightarrow> afterscan \<times> frame" where
  "stabilize_image wd img st =
     (let left_stripe_image = get_image_left_stripe st img;
          (st1, matched) =
             match_template wd (film_hole_template st) left_stripe_image (StabilizationThreshold st) st;
          a = stabilize_alignment st1 img matched;
          st2 =
            (if ConvertLoopRunning st1 \<and> (missing_bottom a < 0 \<or> missing_top a < 0) then
               (let st1a =
                      (if ExpertMode st1 then
                         st1\<lparr>stabilization_bounds_alert_counter :=
                               Suc (stabilization_bounds_alert_counter st1)\<rparr>
                       else st1);
                    missing_rows = (if missing_top a < 0 then missing_top a else - missing_bottom a)
                in st1a\<lparr>logged := logged st1a @
                     [LogFrameAlignTag2 (project_name_tag st1a) (CurrentFrame st1a)
                        missing_rows (move_y a) (move_x a)]\<rparr>)
             else st1)
      in (st2, w_warp wd img (move_x a, move_y a)))"

section \<open>Python strings, paths and lists\<close>

text \<open>\<open>os.path.join(a, b)\<close> for a relative \<open>b\<close>, on a POSIX system.\<close>

definition path_join :: "string \<Rightarrow> string \<Rightarrow> string" where
  "path_join a b = (if a = [] then b else if last a = CHR ''/'' then a @ b else a @ ''/'' @ b)"

text \<open>Decimal digits of a natural number, and Python's \<open>"%05d" % i\<close>.\<close>

function dec :: "nat \<Rightarrow> string" where
  "dec n = (if n < 10 then [''0123456789'' ! n] else dec (n div 10) @ [''0123456789'' ! (n mod 10)])"
  by pat_completeness auto
termination
  by (relation "measure id") auto

declare dec.simps [simp del]

definition zero_pad :: "nat \<Rightarrow> string \<Rightarrow> string" where
  "zero_pad k s = replicate (k - length s) (CHR ''0'') @ s"

definition fmt_05d :: "int \<Rightarrow> string" where
  "fmt_05d i = (if i < 0 then ''-'' @ zero_pad 4 (dec (nat (- i))) else zero_pad 5 (dec (nat i)))"

text \<open>\<open>FrameFilenameOutputPattern % i\<close> with \<open>FrameFilenameOutputPattern = "picture_out-%05d.jpg"\<close>.\<close>

definition FrameFilenameOutputPattern :: "int \<Rightarrow> string" where
  "FrameFilenameOutputPattern i = ''picture_out-'' @ fmt_05d i @ ''.jpg''"

text \<open>
  \<open>glob(os.path.join(dir, FrameCheckFilenameOutputPattern))\<close> with the pattern
  \<open>"picture_out-*.jpg"\<close>, over the files on the disk. Python sorts the result; the list is
  only searched for members, and is kept in the order of the disk here.
\<close>

definition matches_output_pattern :: "string \<Rightarrow> bool" where
  "matches_output_pattern nm \<longleftrightarrow>
     16 \<le> length nm \<and> take 12 nm = ''picture_out-'' \<and> drop (length nm - 4) nm = ''.jpg'' \<and>
     CHR ''/'' \<notin> set nm"

definition glob_output :: "string \<Rightarrow> string list \<Rightarrow> string list" where
  "glob_output dir files =
     (let pre = path_join dir []
      in filter (\<lambda>p. take (length pre) p = pre \<and> matches_output_pattern (drop (length pre) p)) files)"

text \<open>\<open>xs[i]\<close>: a negative index counts from the end; \<open>None\<close> stands for \<open>IndexError\<close>.\<close>

definition py_index :: "'a list \<Rightarrow> int \<Rightarrow> 'a option" where
  "py_index xs i =
     (if 0 \<le> i \<and> i < int (length xs) then Some (xs ! nat i)
      else if i < 0 \<and> - int (length xs) \<le> i then Some (xs ! nat (int (length xs) + i))
      else None)"

text \<open>\<open>s.split()\<close>: the words of a line, separated by runs of blanks.\<close>

fun py_split_acc :: "string \<Rightarrow> string \<Rightarrow> string list" where
  "py_split_acc cur [] = (if cur = [] then [] else [cur])"
| "py_split_acc cur (c # cs) =
     (if c = CHR '' '' \<or> c = CHR 0x09 \<or> c = CHR 0x0A \<or> c = CHR 0x0D then
        (if cur = [] then py_split_acc [] cs else cur # py_split_acc [] cs)
      else py_split_acc (cur @ [c]) cs)"

definition py_split :: "string \<Rightarrow> string list" where
  "py_split s = py_split_acc [] s"

text \<open>\<open>is_a_number\<close>: the string matches \<open>^[0-9]+$\<close>; \<open>int(s)\<close> of such a string.\<close>

definition is_digit :: "char \<Rightarrow> bool" where
  "is_digit c \<longleftrightarrow> c \<in> set ''0123456789''"

definition is_a_number :: "string \<Rightarrow> bool" where
  "is_a_number s \<longleftrightarrow> s \<noteq> [] \<and> list_all is_digit s"

definition digit_value :: "char \<Rightarrow> nat" where
  "digit_value c = of_char c - 48"

definition int_of_digits :: "string \<Rightarrow> int" where
  "int_of_digits s = int (foldl (\<lambda>a c. 10 * a + digit_value c) 0 s)"

text \<open>
  The token \<open>video_generation_loop\<close> reads from a progress line:
  \<open>str(line)[:-1].replace('=', ' ').split()[1]\<close>; \<open>None\<close> when there is no second word.
\<close>

definition progress_token :: "string \<Rightarrow> string option" where
  "progress_token line =
     (case py_split (map (\<lambda>c. if c = CHR ''='' then CHR '' '' else c) (butlast line)) of
        _ # t # _ \<Rightarrow> Some t
      | _ \<Rightarrow> None)"

text \<open>
  The extension of \<open>os.path.splitext\<close> for a file name without directories: from the
  last dot on, when a character other than a dot comes before it.
\<close>

fun ext_acc :: "bool \<Rightarrow> string \<Rightarrow> string \<Rightarrow> string" where
  "ext_acc seen ext [] = ext"
| "ext_acc seen ext (c # cs) =
     (if c = CHR ''.'' then (if seen then ext_acc seen (c # cs) cs else ext_acc seen ext cs)
      else ext_acc True ext cs)"

definition splitext_ext :: "string \<Rightarrow> string" where
  "splitext_ext nm = ext_acc False [] nm"

section \<open>Frame pipeline controller and encoder orchestrator\<close>

text \<open>
  \<^verbatim>\<open>
  def valid_generated_frame_range():
      file_count = 0
      for i in range(first_absolute_frame + StartFrame,
                     first_absolute_frame + StartFrame + frames_to_encode):
          file_to_check = os.path.join(TargetDir, FrameFilenameOutputPattern % i)
          if file_to_check in TargetDirFileList:
              file_count += 1
      return file_count == frames_to_encode
  \<close>
\<close>

definition valid_generated_frame_range :: "afterscan \<Rightarrow> bool" where
  "valid_generated_frame_range st =
     (let first = first_absolute_frame st + StartFrame st;
          file_count =
            length (filter (\<lambda>i. path_join (TargetDir st) (FrameFilenameOutputPattern i)
                                   \<in> set (TargetDirFileList st))
                      [first..first + frames_to_encode st - 1])
      in int file_count = frames_to_encode st)"

text \<open>\<open>job_list[key]['done'] = True\<close> on the insertion-ordered dictionary.\<close>

definition mark_done :: "string \<Rightarrow> (string \<times> job_entry) list \<Rightarrow> (string \<times> job_entry) list" where
  "mark_done key jl = map (\<lambda>(k, j). if k = key then (k, j\<lparr>done_flag := True\<rparr>) else (k, j)) jl"

text \<open>
  \<^verbatim>\<open>
  def generation_exit():
      ConvertLoopRunning = False
      if BatchJobRunning:
          if ConvertLoopExitRequested or CurrentJobEntry == -1:
              start_batch_btn.config(...)
              BatchJobRunning = False
          else:
              job_list[CurrentJobEntry]['done'] = True    # Flag as done
              ...
              win.after(100, job_processing_loop)         # Continue with next
      else:
          Go_btn.config(...)
      ConvertLoopExitRequested = False  # Reset flags
  \<close>
  A key that is no longer in \<open>job_list\<close> raises \<open>KeyError\<close>.
\<close>

definition generation_exit :: "afterscan \<Rightarrow> afterscan" where
  "generation_exit st =
     (let st1 = st\<lparr>ConvertLoopRunning := False\<rparr>
      in if BatchJobRunning st1 then
           (if ConvertLoopExitRequested st1 \<or> CurrentJobEntry st1 = NoEntry then
              st1\<lparr>BatchJobRunning := False, ConvertLoopExitRequested := False\<rparr>
            else
              (case CurrentJobEntry st1 of
                 NoEntry \<Rightarrow> st1
               | Entry key \<Rightarrow>
                   (if key \<in> set (map fst (job_list st1)) then
                      st1\<lparr>job_list := mark_done key (job_list st1),
                          scheduled := scheduled st1 @ [JobProcessingLoop],
                          ConvertLoopExitRequested := False\<rparr>
                    else st1\<lparr>raised := True\<rparr>)))
         else st1\<lparr>ConvertLoopExitRequested := False\<rparr>)"

text \<open>
  \<open>start_convert\<close>, the callback of the start button, also called by the job loop. Saving
  the configuration files is left out; the default video name carries a time stamp, which
  is the parameter \<open>stamp\<close>.
  \<^verbatim>\<open>
  def start_convert():
      if ConvertLoopRunning:
          ConvertLoopExitRequested = True
      else:
          ...
          stabilization_bounds_alert_counter = 0
          if encode_all_frames.get():
              StartFrame = 0
              frames_to_encode = len(SourceDirFileList)
          else:
              StartFrame = int(frame_from_str.get())
              frames_to_encode = int(frame_to_str.get()) - int(frame_from_str.get()) + 1
              if StartFrame + frames_to_encode > len(SourceDirFileList):
                  frames_to_encode = len(SourceDirFileList) - StartFrame
          CurrentFrame = StartFrame
          if frames_to_encode == 0:
              tk.messagebox.showwarning("No frames match range", ...)
              return
          ...
          if project_config["GenerateVideo"]:
              TargetVideoFilename = video_filename_name.get()
              name, ext = os.path.splitext(TargetVideoFilename)
              if TargetVideoFilename == "":   # Assign default if no filename
                  TargetVideoFilename = ("AfterScan-" + datetime.now().strftime(...) + ".mp4")
                  ...
              elif ext not in ['.mp4', '.MP4', '.mkv', '.MKV']:
                  TargetVideoFilename += ".mp4"
                  ...
              elif os.path.isfile(os.path.join(VideoTargetDir, TargetVideoFilename)):
                  if not BatchJobRunning:
                      if not tk.messagebox.askyesno("Error!", error_msg):
                          generation_exit()
                          return
          ConvertLoopRunning = True
          if not generate_video.get() or not skip_frame_regeneration.get():
              if not validate_template_size():
                  tk.messagebox.showerror("Error!", "Template is bigger than search area. ...")
                  ConvertLoopExitRequested = True
              else:
                  logging.warning("FrameAlignTag, %s, %i, %i, 9999, 9999", ...)
              win.after(1, frame_generation_loop)
          elif generate_video.get():
              ffmpeg_success = False
              ffmpeg_encoding_status = ffmpeg_state.Pending
              win.after(1, video_generation_loop)
  \<close>
\<close>

definition start_convert_launch :: "afterscan \<Rightarrow> afterscan" where
  "start_convert_launch st =
     (let st1 = st\<lparr>ConvertLoopRunning := True\<rparr>
      in if \<not> generate_video st1 \<or> \<not> skip_frame_regeneration st1 then
           (let (st2, ok) = validate_template_size st1;
                st3 = (if \<not> ok then
                         st2\<lparr>dialogs := dialogs st2 @ [TemplateBiggerThanSearchArea],
                             ConvertLoopExitRequested := True\<rparr>
                       else
                         st2\<lparr>logged := logged st2 @
                               [LogFrameAlignTag (project_name_tag st2) (StartFrame st2)
                                  (frames_to_encode st2)]\<rparr>)
            in st3\<lparr>scheduled := scheduled st3 @ [FrameGenerationLoop]\<rparr>)
         else
           st1\<lparr>ffmpeg_success := False, ffmpeg_encoding_status := Pending,
               scheduled := scheduled st1 @ [VideoGenerationLoop]\<rparr>)"

definition start_convert :: "world \<Rightarrow> string \<Rightarrow> afterscan \<Rightarrow> afterscan" where
  "start_convert wd stamp st =
     (if ConvertLoopRunning st then st\<lparr>ConvertLoopExitRequested := True\<rparr>
      else
        (let st0 = st\<lparr>stabilization_bounds_alert_counter := 0\<rparr>;
             n = int (length (SourceDirFileList st0));
             st1 =
               (if encode_all_frames st0 then st0\<lparr>StartFrame := 0, frames_to_encode := n\<rparr>
                else
                  (let sf = frame_from_str st0;
                       fte = frame_to_str st0 - frame_from_str st0 + 1
                   in st0\<lparr>StartFrame := sf,
                          frames_to_encode := (if n < sf + fte then n - sf else fte)\<rparr>));
             st2 = st1\<lparr>CurrentFrame := StartFrame st1\<rparr>
         in if frames_to_encode st2 = 0 then st2\<lparr>dialogs := dialogs st2 @ [NoFramesMatchRange]\<rparr>
            else if p_GenerateVideo (project_config st2) then
              (let nm = video_filename_name st2;
                   st3 = st2\<lparr>TargetVideoFilename := nm\<rparr>
               in if nm = [] then
                    start_convert_launch
                      (st3\<lparr>TargetVideoFilename := ''AfterScan-'' @ stamp @ ''.mp4'',
                           video_filename_name := ''AfterScan-'' @ stamp @ ''.mp4''\<rparr>)
                  else if splitext_ext nm \<notin> set [''.mp4'', ''.MP4'', ''.mkv'', ''.MKV''] then
                    start_convert_launch
                      (st3\<lparr>TargetVideoFilename := nm @ ''.mp4'', video_filename_name := nm @ ''.mp4''\<rparr>)
                  else if w_isfile wd (path_join (VideoTargetDir st3) nm) \<and> \<not> BatchJobRunning st3 then
                    (let st4 = st3\<lparr>dialogs := dialogs st3 @ [OverwriteVideo]\<rparr>
                     in if \<not> w_askyesno wd OverwriteVideo then generation_exit st4
                        else start_convert_launch st4)
                  else start_convert_launch st3)
            else start_convert_launch st2))"

text \<open>
  \<open>cv2.imwrite(target_file, img)\<close>: the file is on the disk afterwards, and the call is
  recorded with the frame written.
\<close>

definition imwrite :: "string \<Rightarrow> frame \<Rightarrow> afterscan \<Rightarrow> afterscan" where
  "imwrite target_file img st =
     st\<lparr>disk := (if target_file \<in> set (disk st) then disk st else disk st @ [target_file]),
        written := written st @ [(target_file, img)]\<rparr>"

text \<open>
  The transforms of \<open>frame_generation_loop\<close>, in the order of the source:
  \<^verbatim>\<open>
          if perform_rotation.get():
              img = rotate_image(img)
          if perform_stabilization.get():
              img = stabilize_image(img)
          if perform_cropping.get():
              img = crop_image(img, CropTopLeft, CropBottomRight)
          else:
              img = even_image(img)
  \<close>
\<close>

definition transform_frame :: "world \<Rightarrow> frame \<Rightarrow> afterscan \<Rightarrow> afterscan \<times> frame" where
  "transform_frame wd img0 st =
     (let img1 = (if perform_rotation st then rotate_image wd st img0 else img0);
          (st1, img2) = (if perform_stabilization st then stabilize_image wd img1 st else (st, img1));
          img3 = (if perform_cropping st1 then crop_image img2 (CropTopLeft st1) (CropBottomRight st1)
                  else even_image img2)
      in (st1, img3))"

text \<open>
  \<^verbatim>\<open>
  def frame_generation_loop():
      if CurrentFrame >= StartFrame + frames_to_encode:
          status_str = "Status: Frame generation OK"
          app_status_label.config(text=status_str, fg='green')
          TargetDirFileList = sorted(list(glob(os.path.join(
              TargetDir, FrameCheckFilenameOutputPattern))))
          if generate_video.get():
              ffmpeg_success = False
              ffmpeg_encoding_status = ffmpeg_state.Pending
              win.after(1, video_generation_loop)
          else:
              generation_exit()
          CurrentFrame -= 1  # Prevent being out of range
          return
      if ConvertLoopExitRequested:  # Stop button pressed
          status_str = "Status: Cancelled by user"
          app_status_label.config(text=status_str, fg='red')
          generation_exit()
          return
      file = SourceDirFileList[CurrentFrame]
      img = cv2.imread(file, cv2.IMREAD_UNCHANGED)
      if img is None:
          logging.error("Error reading frame %i, skipping", CurrentFrame)
      else:
          (the transforms)
          if img.shape[1] % 2 == 1 or img.shape[0] % 2 == 1:
              logging.error("Target size, one odd dimension")
              status_str = "Status: Frame %d - odd size" % CurrentFrame
              app_status_label.config(text=status_str, fg='red')
              CurrentFrame = StartFrame + frames_to_encode - 1
          if os.path.isdir(TargetDir):
              target_file = os.path.join(TargetDir,
                  FrameFilenameOutputPattern % (first_absolute_frame + CurrentFrame))
              cv2.imwrite(target_file, img)
          ...
          status_str = "Status: Generating frames %.1f%%" % (
              (CurrentFrame-StartFrame)*100/frames_to_encode)
          app_status_label.config(text=status_str, fg='black')
      CurrentFrame += 1
      project_config["CurrentFrame"] = CurrentFrame
      win.after(1, frame_generation_loop)
  \<close>
  An index outside the file list raises \<open>IndexError\<close>, a frame count of zero in the
  percentage raises \<open>ZeroDivisionError\<close>; the callback then ends where it is.
\<close>

definition frame_generation_next :: "afterscan \<Rightarrow> afterscan" where
  "frame_generation_next st =
     (let st1 = st\<lparr>CurrentFrame := CurrentFrame st + 1\<rparr>;
          st2 = st1\<lparr>project_config := (project_config st1)\<lparr>p_CurrentFrame := CurrentFrame st1\<rparr>\<rparr>
      in st2\<lparr>scheduled := scheduled st2 @ [FrameGenerationLoop]\<rparr>)"

definition frame_generation_loop :: "world \<Rightarrow> afterscan \<Rightarrow> afterscan" where
  "frame_generation_loop wd st =
     (if StartFrame st + frames_to_encode st \<le> CurrentFrame st then
        (let st1 = st\<lparr>app_status_label := (StatusFrameGenerationOK, Green),
                      TargetDirFileList := glob_output (TargetDir st) (disk st)\<rparr>;
             st2 = (if generate_video st1 then
                      st1\<lparr>ffmpeg_success := False, ffmpeg_encoding_status := Pending,
                          scheduled := scheduled st1 @ [VideoGenerationLoop]\<rparr>
                    else generation_exit st1)
         in if raised st2 then st2 else st2\<lparr>CurrentFrame := CurrentFrame st2 - 1\<rparr>)
      else if ConvertLoopExitRequested st then
        generation_exit (st\<lparr>app_status_label := (StatusCancelledByUser, Red)\<rparr>)
      else
        (case py_index (SourceDirFileList st) (CurrentFrame st) of
           None \<Rightarrow> st\<lparr>raised := True\<rparr>
         | Some file \<Rightarrow>
             (case w_imread wd file of
                None \<Rightarrow>
                  frame_generation_next
                    (st\<lparr>logged := logged st @ [LogErrorReadingFrame (CurrentFrame st)]\<rparr>)
              | Some img0 \<Rightarrow>
                  (let (st1, img) = transform_frame wd img0 st;
                       st2 =
                         (if int (width img) mod 2 = 1 \<or> int (height img) mod 2 = 1 then
                            st1\<lparr>logged := logged st1 @ [LogOddDimension],
                                app_status_label := (StatusOddSize (CurrentFrame st1), Red),
                                CurrentFrame := StartFrame st1 + frames_to_encode st1 - 1\<rparr>
                          else st1);
                       st3 =
                         (if w_isdir wd (TargetDir st2) then
                            imwrite
                              (path_join (TargetDir st2)
                                 (FrameFilenameOutputPattern (first_absolute_frame st2 + CurrentFrame st2)))
                              img st2
                          else st2)
                   in if frames_to_encode st3 = 0 then st3\<lparr>raised := True\<rparr>
                      else
                        frame_generation_next
                          (st3\<lparr>app_status_label :=
                                (StatusGeneratingFrames
                                   (of_int ((CurrentFrame st3 - StartFrame st3) * 100) /
                                    of_int (frames_to_encode st3)), Black)\<rparr>)))))"

text \<open>
  \<open>call_ffmpeg\<close> runs in a thread of its own: it builds the command line, starts the
  encoder with \<open>sp.Popen\<close>, waits for it, and then sets \<open>ffmpeg_success\<close> and
  \<open>ffmpeg_encoding_status = Completed\<close>. Its start is recorded in \<open>spawned\<close> with the
  \<open>-start_number\<close> and \<open>-frames:v\<close> arguments, and the lines the encoder will print become
  \<open>ffmpeg_stdout\<close>; its end is \<open>call_ffmpeg_returns\<close>.
\<close>

definition call_ffmpeg_starts :: "world \<Rightarrow> afterscan \<Rightarrow> afterscan" where
  "call_ffmpeg_starts wd st =
     st\<lparr>spawned := spawned st @ [(StartFrame st + first_absolute_frame st, frames_to_encode st)],
        ffmpeg_stdout := w_ffmpeg_output wd\<rparr>"

definition call_ffmpeg_returns :: "world \<Rightarrow> afterscan \<Rightarrow> afterscan" where
  "call_ffmpeg_returns wd st =
     st\<lparr>ffmpeg_success := (w_ffmpeg_exit wd = 0), ffmpeg_encoding_status := Completed\<rparr>"

text \<open>
  \<^verbatim>\<open>
  def video_generation_loop():
      if ffmpeg_encoding_status == ffmpeg_state.Pending:
          # Check for special cases first
          if frames_to_encode == 0:
              status_str = "Status: No frames to encode"
              app_status_label.config(text=status_str, fg='red')
              tk.messagebox.showwarning("No frames match range to generate video", ...)
              generation_exit()  # Restore all settings to normal
          elif not valid_generated_frame_range():
              status_str = "Status: No frames to encode"
              app_status_label.config(text=status_str, fg='red')
              tk.messagebox.showwarning("Frames missing", ...)
              generation_exit()  # Restore all settings to normal
          else:
              ffmpeg_success = False
              ffmpeg_encoding_thread = threading.Thread(target=call_ffmpeg)
              ffmpeg_encoding_thread.daemon = True
              ffmpeg_encoding_thread.start()
              win.update()
              ffmpeg_encoding_status = ffmpeg_state.Running
              win.after(200, video_generation_loop)
      elif ffmpeg_encoding_status == ffmpeg_state.Running:
          if ConvertLoopExitRequested:
              ffmpeg_process.terminate()
              logging.warning("Video generation terminated by user for %s", ...)
              status_str = "Status: Cancelled by user"
              app_status_label.config(text=status_str, fg='red')
              tk.messagebox.showinfo("FFMPEG encoding interrupted by user", ...)
              generation_exit()  # Restore all settings to normal
              os.remove(os.path.join(VideoTargetDir, TargetVideoFilename))
          else:
              line = ffmpeg_process.stdout.readline().strip()
              if line:
                  frame_str = str(line)[:-1].replace('=', ' ').split()[1]
                  if is_a_number(frame_str):
                      encoded_frame = int(frame_str)
                      ...
                      status_str = "Status: Generating video %.1f%%" % (encoded_frame*100/frames_to_encode)
                      app_status_label.config(text=status_str, fg='black')
                      display_output_frame_by_number(encoded_frame)
                  else:
                      app_status_label.config(text='Error, ffmpeg sync lost', fg='red')
                      logging.error("Error, ffmpeg sync lost. Line parsed: %s", line)
              else:
                  status_str = "No feedback from ffmpeg"
                  app_status_label.config(text=status_str, fg='red')
              win.after(200, video_generation_loop)
      elif ffmpeg_encoding_status == ffmpeg_state.Completed:
          status_str = "Status: Generating video 100%"
          app_status_label.config(text=status_str, fg='black')
          if ffmpeg_success:
              status_str = "Status: Video generated OK"
              app_status_label.config(text=status_str, fg='green')
              if not BatchJobRunning:
                  tk.messagebox.showinfo("Video generation by ffmpeg has ended", ...)
          else:
              logging.error("Video generation failed for %s", ...)
              status_str = "Status: Video generation failed"
              app_status_label.config(text=status_str, fg='red')
              if not BatchJobRunning:
                  tk.messagebox.showinfo("FFMPEG encoding failed", ...)
          generation_exit()  # Restore all settings to normal
  \<close>
  A line of the encoder is taken as already stripped; the end of its output reads as the
  empty line.
\<close>

definition video_generation_loop :: "world \<Rightarrow> afterscan \<Rightarrow> afterscan" where
  "video_generation_loop wd st =
     (case ffmpeg_encoding_status st of
        Pending \<Rightarrow>
          (if frames_to_encode st = 0 then
             generation_exit
               (st\<lparr>app_status_label := (StatusNoFramesToEncode, Red),
                   dialogs := dialogs st @ [NoFramesMatchRangeToGenerateVideo]\<rparr>)
           else if \<not> valid_generated_frame_range st then
             generation_exit
               (st\<lparr>app_status_label := (StatusNoFramesToEncode, Red),
                   dialogs := dialogs st @ [FramesMissing]\<rparr>)
           else
             (let st1 = call_ffmpeg_starts wd (st\<lparr>ffmpeg_success := False\<rparr>)
              in st1\<lparr>ffmpeg_encoding_status := Running,
                     scheduled := scheduled st1 @ [VideoGenerationLoop]\<rparr>))
      | Running \<Rightarrow>
          (if ConvertLoopExitRequested st then
             (let video = path_join (VideoTargetDir st) (TargetVideoFilename st);
                  st1 = generation_exit
                          (st\<lparr>logged := logged st @ [LogVideoTerminated video],
                              app_status_label := (StatusCancelledByUser, Red),
                              dialogs := dialogs st @ [FfmpegInterruptedByUser]\<rparr>)
              in if raised st1 then st1 else st1\<lparr>removed := removed st1 @ [video]\<rparr>)
           else
             (let line = (case ffmpeg_stdout st of [] \<Rightarrow> [] | l # _ \<Rightarrow> l);
                  st1 = st\<lparr>ffmpeg_stdout := tl (ffmpeg_stdout st)\<rparr>
              in if line \<noteq> [] then
                   (case progress_token line of
                      None \<Rightarrow> st1\<lparr>raised := True\<rparr>
                    | Some frame_str \<Rightarrow>
                        (if is_a_number frame_str then
                           st1\<lparr>app_status_label :=
                                 (StatusGeneratingVideo
                                    (of_int (int_of_digits frame_str * 100) /
                                     of_int (frames_to_encode st1)), Black),
                               scheduled := scheduled st1 @ [VideoGenerationLoop]\<rparr>
                         else
                           st1\<lparr>app_status_label := (StatusSyncLost, Red),
                               logged := logged st1 @ [LogSyncLost line],
                               scheduled := scheduled st1 @ [VideoGenerationLoop]\<rparr>))
                 else
                   st1\<lparr>app_status_label := (StatusNoFeedback, Red),
                       scheduled := scheduled st1 @ [VideoGenerationLoop]\<rparr>))
      | Completed \<Rightarrow>
          (if ffmpeg_success st then
             generation_exit
               (st\<lparr>app_status_label := (StatusVideoGeneratedOK, Green),
                   dialogs := (if \<not> BatchJobRunning st then dialogs st @ [VideoGenerationEnded]
                               else dialogs st)\<rparr>)
           else
             generation_exit
               (st\<lparr>logged := logged st @
                     [LogVideoFailed (path_join (VideoTargetDir st) (TargetVideoFilename st))],
                   app_status_label := (StatusVideoGenerationFailed, Red),
                   dialogs := (if \<not> BatchJobRunning st then dialogs st @ [FfmpegEncodingFailed]
                               else dialogs st)\<rparr>)))"

section \<open>Job queue runner\<close>

text \<open>
  \<^verbatim>\<open>
  def get_target_dir_file_list():
      if not os.path.isdir(TargetDir):
          return
      TargetDirFileList = sorted(list(glob(os.path.join(
          TargetDir, FrameCheckFilenameOutputPattern))))
      ...
  \<close>
\<close>

definition get_target_dir_file_list :: "world \<Rightarrow> afterscan \<Rightarrow> afterscan" where
  "get_target_dir_file_list wd st =
     (if \<not> w_isdir wd (TargetDir st) then st
      else st\<lparr>TargetDirFileList := glob_output (TargetDir st) (disk st)\<rparr>)"

text \<open>
  \<open>decode_project_config\<close>: the globals and Tk variables are set from \<open>project_config\<close>,
  in the order of the source.
\<close>

definition decode_project_config :: "world \<Rightarrow> afterscan \<Rightarrow> afterscan" where
  "decode_project_config wd st =
     (let pc = project_config st;
          st1 = (if w_isdir wd (p_SourceDir pc) then st\<lparr>SourceDir := p_SourceDir pc\<rparr>
                 else st\<lparr>SourceDir := [], project_name := ''No Project''\<rparr>);
          st2 = (if w_isdir wd (p_TargetDir pc)
                 then get_target_dir_file_list wd (st1\<lparr>TargetDir := p_TargetDir pc\<rparr>)
                 else st1\<lparr>TargetDir := []\<rparr>);
          st3 = st2\<lparr>VideoTargetDir :=
                     (if w_isdir wd (p_VideoTargetDir pc) then p_VideoTargetDir pc else TargetDir st2)\<rparr>;
          st4 = st3\<lparr>CurrentFrame := max (p_CurrentFrame pc) 0,
                    encode_all_frames := p_EncodeAllFrames pc,
                    frame_from_str := p_FrameFrom pc,
                    frame_to_str := p_FrameTo pc,
                    frames_to_encode := p_FrameTo pc - p_FrameFrom pc + 1,
                    film_type := p_FilmType pc\<rparr>;
          st5 = set_film_type wd st4;
          st6 = st5\<lparr>RotationAngle := p_RotationAngle pc,
                    StabilizationThreshold := p_StabilizationThreshold pc,
                    expected_pattern_pos_custom := p_CustomTemplateExpectedPos pc,
                    CustomTemplateDefined := p_CustomTemplateDefined pc\<rparr>;
          st7 = (if p_CustomTemplateDefined pc then
                   set_film_type wd
                     (st6\<lparr>pattern_filename_custom := p_CustomTemplateFilename pc,
                          pattern_filename := p_CustomTemplateFilename pc,
                          expected_pattern_pos := expected_pattern_pos_custom st6\<rparr>)
                 else st6);
          st8 = st7\<lparr>perform_cropping := p_PerformCropping pc,
                    CropBottomRight := snd (p_CropRectangle pc),
                    CropTopLeft := fst (p_CropRectangle pc),
                    generate_video := p_GenerateVideo pc,
                    video_filename_name := p_VideoFilename pc,
                    skip_frame_regeneration := p_skip_frame_regeneration pc,
                    film_hole_height := (case p_HoleHeight pc of None \<Rightarrow> 0 | Some h \<Rightarrow> h),
                    StabilizeAreaDefined := (p_HoleHeight pc \<noteq> None),
                    perform_stabilization := p_PerformStabilization pc,
                    perform_rotation := p_PerformRotation pc\<rparr>
      in st8\<lparr>project_config :=
               (project_config st8)\<lparr>p_PerformCropping := p_PerformCropping pc,
                                     p_GenerateVideo := p_GenerateVideo pc\<rparr>\<rparr>)"

text \<open>The last component of a path, and the number made of the digits in it.\<close>

definition basename :: "string \<Rightarrow> string" where
  "basename p = rev (takeWhile (\<lambda>c. c \<noteq> CHR ''/'') (rev p))"

text \<open>
  \<^verbatim>\<open>
  def get_source_dir_file_list():
      if not os.path.isdir(SourceDir):
          return
      SourceDirFileList = sorted(list(glob(os.path.join(
          SourceDir, project_config["FrameInputFilenamePattern"]))))
      if len(SourceDirFileList) == 0:
          tk.messagebox.showerror("Error!", "No files match pattern name. ...")
          ...
          return
      # Sanity check for CurrentFrame
      if CurrentFrame >= len(SourceDirFileList):
          CurrentFrame = 0
      first_absolute_frame = int(
          ''.join(list(filter(str.isdigit, os.path.basename(SourceDirFileList[0])))))
      ...
      sample_frame = CurrentFrame + int((len(SourceDirFileList) - CurrentFrame) * 0.1)
      work_image = cv2.imread(SourceDirFileList[sample_frame], cv2.IMREAD_UNCHANGED)
      set_hole_search_area(work_image)
      select_hole_height(work_image)
      set_film_type()
      ...
  \<close>
  A first file name without a digit raises \<open>ValueError\<close>, a sample frame that does not
  decode raises \<open>AttributeError\<close>.
\<close>

definition get_source_dir_file_list :: "world \<Rightarrow> afterscan \<Rightarrow> afterscan" where
  "get_source_dir_file_list wd st =
     (if \<not> w_isdir wd (SourceDir st) then st
      else
        (let files = w_glob wd (SourceDir st) (p_FrameInputFilenamePattern (project_config st));
             st1 = st\<lparr>SourceDirFileList := files\<rparr>
         in if files = [] then st1\<lparr>dialogs := dialogs st1 @ [NoFilesMatchPattern]\<rparr>
            else
              (let st2 = (if int (length files) \<le> CurrentFrame st1 then st1\<lparr>CurrentFrame := 0\<rparr> else st1);
                   digits = filter is_digit (basename (hd files))
               in if digits = [] then st2\<lparr>raised := True\<rparr>
                  else
                    (let st3 = st2\<lparr>first_absolute_frame := int_of_digits digits\<rparr>;
                         sample_frame =
                           CurrentFrame st3 +
                           py_int (of_int (int (length files) - CurrentFrame st3) * (1 / 10))
                     in case py_index files sample_frame of
                          None \<Rightarrow> st3\<lparr>raised := True\<rparr>
                        | Some f \<Rightarrow>
                            (case w_imread wd f of
                               None \<Rightarrow> st3\<lparr>raised := True\<rparr>
                             | Some work_image \<Rightarrow>
                                 set_film_type wd
                                   (select_hole_height wd work_image
                                      (set_hole_search_area work_image st3)))))))"

text \<open>\<open>system_suspend\<close> starts the suspend command of the platform.\<close>

definition system_suspend :: "afterscan \<Rightarrow> afterscan" where
  "system_suspend st = st\<lparr>suspended := Suc (suspended st)\<rparr>"

text \<open>
  \<^verbatim>\<open>
  def job_processing_loop():
      job_started = False
      idx = 0
      for entry in job_list:
          if  job_list[entry]['done'] == False:
              ...
              CurrentJobEntry = entry
              logging.info("Processing %s, starting from frame %i, %s frames",
                           entry, job_list[entry]['project']['CurrentFrame'],
                           job_list[entry]['project']['FramesToEncode'])
              project_config_from_file = False
              project_config = job_list[entry]['project'].copy()
              decode_project_config()
              # Load matching file list from newly selected dir
              get_source_dir_file_list()  # first_absolute_frame is set here
              get_target_dir_file_list()
              start_convert()
              job_started = True
              break
          ...
          idx += 1
      if not job_started:
          CurrentJobEntry = -1
          generation_exit()
          if suspend_on_joblist_end.get():
              system_suspend()
  \<close>
  The \<open>FramesToEncode\<close> of the log line is written as the range of the snapshot.
\<close>

definition job_processing_loop :: "world \<Rightarrow> string \<Rightarrow> afterscan \<Rightarrow> afterscan" where
  "job_processing_loop wd stamp st =
     (case find (\<lambda>(entry, j). \<not> done_flag j) (job_list st) of
        Some (entry, j) \<Rightarrow>
          (let st1 = st\<lparr>CurrentJobEntry := Entry entry,
                        logged := logged st @
                          [LogProcessing entry (p_CurrentFrame (job_project j))
                             (p_FrameTo (job_project j) - p_FrameFrom (job_project j) + 1)],
                        project_config := job_project j\<rparr>;
               st2 = get_source_dir_file_list wd (decode_project_config wd st1)
           in if raised st2 then st2
              else start_convert wd stamp (get_target_dir_file_list wd st2))
      | None \<Rightarrow>
          (let st1 = generation_exit (st\<lparr>CurrentJobEntry := NoEntry\<rparr>)
           in if raised st1 then st1
              else if suspend_on_joblist_end st1 then system_suspend st1 else st1))"

text \<open>
  \<^verbatim>\<open>
  def start_processing_job_list():
      BatchJobRunning = True
      ...
      job_processing_loop()
  \<close>
\<close>

definition start_processing_job_list :: "world \<Rightarrow> string \<Rightarrow> afterscan \<Rightarrow> afterscan" where
  "start_processing_job_list wd stamp st = job_processing_loop wd stamp (st\<lparr>BatchJobRunning := True\<rparr>)"

section \<open>The event loop\<close>

text \<open>
  One turn of the Tk main loop: the callback scheduled first with \<open>win.after\<close> runs. The
  encoder thread is taken to return once the loop has read all the encoder has printed:
  a turn of \<open>video_generation_loop\<close> that finds the encoder running and its output used
  up sees the thread's last assignments. Nothing runs after a callback has raised.
\<close>

definition tick :: "world \<Rightarrow> string \<Rightarrow> afterscan \<Rightarrow> afterscan" where
  "tick wd stamp st =
     (if raised st then st
      else
        (case scheduled st of
           [] \<Rightarrow> st
         | cb # rest \<Rightarrow>
             (let st1 = st\<lparr>scheduled := rest\<rparr>
              in case cb of
                   FrameGenerationLoop \<Rightarrow> frame_generation_loop wd st1
                 | VideoGenerationLoop \<Rightarrow>
                     video_generation_loop wd
                       (if ffmpeg_encoding_status st1 = Running \<and> ffmpeg_stdout st1 = []
                        then call_ffmpeg_returns wd st1 else st1)
                 | JobProcessingLoop \<Rightarrow> job_processing_loop wd stamp st1)))"

text \<open>\<open>n\<close> turns of the main loop.\<close>

fun run :: "world \<Rightarrow> string \<Rightarrow> nat \<Rightarrow> afterscan \<Rightarrow> afterscan" where
  "run wd stamp 0 st = st"
| "run wd stamp (Suc n) st = run wd stamp n (tick wd stamp st)"

section \<open>A sample installation\<close>

text \<open>
  A small world to run the program in. Frames are 10 pixels wide and 6 high; the hole is
  a single pixel of value 9 and the hole pattern is that pixel. \<open>find_template\<close> stands
  for the OpenCV search: the first place, row by row, where the template occurs pixel for
  pixel, which is where the normalised correlation has its maximum. \<open>translate_frame\<close>
  stands for \<open>cv2.warpAffine\<close>: pixels move by the shift, uncovered pixels are 0.
\<close>

definition occurs_at :: "frame \<Rightarrow> frame \<Rightarrow> nat \<Rightarrow> nat \<Rightarrow> bool" where
  "occurs_at tmpl img x y \<longleftrightarrow>
     rows (np_slice img (int y) (int y + int (height tmpl)) (int x) (int x + int (width tmpl))) =
     rows tmpl"

definition find_template :: "frame \<Rightarrow> frame \<Rightarrow> int \<times> int" where
  "find_template tmpl img =
     (case find (\<lambda>(y, x). occurs_at tmpl img x y)
             (List.product [0..<Suc (height img - height tmpl)] [0..<Suc (width img - width tmpl)]) of
        Some (y, x) \<Rightarrow> (int x, int y)
      | None \<Rightarrow> (0, 0))"

definition translate_frame :: "frame \<Rightarrow> rat \<times> rat \<Rightarrow> frame" where
  "translate_frame img mv =
     \<lparr>height = height img, width = width img,
      rows = map (\<lambda>r. map (\<lambda>c.
                 (let sr = int r - \<lfloor>snd mv\<rfloor>; sc = int c - \<lfloor>fst mv\<rfloor>
                  in if 0 \<le> sr \<and> sr < int (height img) \<and> 0 \<le> sc \<and> sc < int (width img)
                     then pixel img (nat sr) (nat sc) else 0)) [0..<width img]) [0..<height img]\<rparr>"

text \<open>A frame with the hole at column \<open>x\<close>, row \<open>y\<close>, and the hole pattern.\<close>

definition hole_frame :: "nat \<Rightarrow> nat \<Rightarrow> frame" where
  "hole_frame x y =
     \<lparr>height = 6, width = 10,
      rows = map (\<lambda>r. map (\<lambda>c. if r = y \<and> c = x then 9 else 0) [0..<10]) [0..<6]\<rparr>"

definition hole_pattern :: frame where
  "hole_pattern = \<lparr>height = 1, width = 1, rows = [[9]]\<rparr>"

text \<open>
  For the default S8 pattern the hole is expected at 6.5 % of the width and 34 % of the
  height, which is column 1, row 2 of a sample frame. \<open>good_frame\<close> has it there,
  \<open>low_frame\<close> two rows lower, \<open>corner_frame\<close> in the top left corner.
\<close>

definition good_frame :: frame where "good_frame = hole_frame 1 2"
definition low_frame :: frame where "low_frame = hole_frame 1 4"
definition corner_frame :: frame where "corner_frame = hole_frame 0 0"

text \<open>
  The source directories: \<open>a\<close> holds two good frames, \<open>b\<close> one, \<open>c\<close> one, and \<open>d\<close> a good
  frame, a frame of a single pixel and another good frame. Every directory named exists;
  no video file exists; the user answers no.
\<close>

definition sample_files :: "string \<Rightarrow> string list" where
  "sample_files dir =
     (if dir = ''a'' then [''a/picture-00001.jpg'', ''a/picture-00002.jpg'']
      else if dir = ''b'' then [''b/picture-00001.jpg'']
      else if dir = ''c'' then [''c/picture-00007.jpg'']
      else if dir = ''d'' then [''d/picture-00001.jpg'', ''d/picture-00002.jpg'', ''d/picture-00003.jpg'']
      else [])"

definition sample_world :: world where
  "sample_world =
     \<lparr>w_imread = (\<lambda>f. if f = ''d/picture-00002.jpg'' then Some frame_1x1
                      else if f = ''a/picture-00002.jpg'' then Some low_frame
                      else if f \<in> set (concat (map sample_files [''a'', ''b'', ''c'', ''d'']))
                        then Some good_frame
                      else None),
      w_imread_pattern = (\<lambda>f. hole_pattern),
      w_match = find_template,
      w_warp = translate_frame,
      w_rotate = (\<lambda>img angle. img),
      w_resize = (\<lambda>img dsize.
         \<lparr>height = nat (snd dsize), width = nat (fst dsize),
          rows = replicate (nat (snd dsize)) (replicate (nat (fst dsize)) (pixel img 0 0))\<rparr>),
      w_isdir = (\<lambda>d. d \<in> set [''a'', ''b'', ''c'', ''d'', ''oa'', ''ob'', ''oc'', ''od'']),
      w_isfile = (\<lambda>f. False),
      w_glob = (\<lambda>dir pat. if pat = ''picture-*.jpg'' then sample_files dir else []),
      w_askyesno = (\<lambda>d. False),
      w_ffmpeg_output = [''frame=    1 fps=0.0 q=0.0 size=0kB'', ''frame=    2 fps=0.0 q=-1.0 Lsize=1kB''],
      w_ffmpeg_exit = 0\<rparr>"

text \<open>The values of \<open>default_project_config\<close>, and a project on a source and a target directory.\<close>

definition default_project_config :: project where
  "default_project_config =
     \<lparr>p_SourceDir = [], p_TargetDir = [], p_VideoTargetDir = [],
      p_FrameInputFilenamePattern = ''picture-*.jpg'', p_FilmType = ''S8'', p_CurrentFrame = 0,
      p_EncodeAllFrames = True, p_FrameFrom = 0, p_FrameTo = 0, p_RotationAngle = 0,
      p_StabilizationThreshold = 240, p_CustomTemplateDefined = False,
      p_CustomTemplateExpectedPos = (0, 0), p_CustomTemplateFilename = [],
      p_PerformCropping = False, p_CropRectangle = ((0, 0), (0, 0)), p_GenerateVideo = False,
      p_VideoFilename = [], p_skip_frame_regeneration = False, p_HoleHeight = None,
      p_PerformStabilization = False, p_PerformRotation = False\<rparr>"

definition sample_project :: "string \<Rightarrow> string \<Rightarrow> project" where
  "sample_project src tgt = default_project_config\<lparr>p_SourceDir := src, p_TargetDir := tgt\<rparr>"

text \<open>The state after the module is loaded and \<open>main\<close> has read the pattern files.\<close>

definition initial_state :: "world \<Rightarrow> afterscan" where
  "initial_state wd =
     \<lparr>project_config = default_project_config, film_type = ''S8'',
      CustomTemplateDefined = False, pattern_filename = pattern_filename_s8,
      pattern_filename_custom = ''Pattern.custom.jpg'',
      expected_pattern_pos = expected_pattern_pos_s8, expected_pattern_pos_custom = (0, 0),
      film_hole_template = w_imread_pattern wd pattern_filename_s8,
      film_bw_template = w_imread_pattern wd ''Pattern_BW.jpg'',
      film_wb_template = w_imread_pattern wd ''Pattern_WB.jpg'',
      film_hole_height = 0, StabilizeAreaDefined = False,
      HoleSearchTopLeft = (0, 0), HoleSearchBottomRight = (0, 0),
      StabilizationThreshold = 240, CropTopLeft = (0, 0), CropBottomRight = (0, 0),
      RotationAngle = 0, BatchJobRunning = False, ConvertLoopRunning = False,
      ConvertLoopExitRequested = False, ExpertMode = False,
      stabilization_bounds_alert_counter = 0, perform_rotation = False,
      perform_stabilization = False, perform_cropping = False, generate_video = False,
      skip_frame_regeneration = False, encode_all_frames = True, frame_from_str = 0,
      frame_to_str = 0, CurrentFrame = 0, StartFrame = 0, frames_to_encode = 0,
      first_absolute_frame = 0, SourceDirFileList = [], TargetDirFileList = [],
      SourceDir = [], TargetDir = [], VideoTargetDir = [], TargetVideoFilename = [],
      video_filename_name = [], project_name = ''No Project'', ffmpeg_success = False,
      ffmpeg_encoding_status = Pending, ffmpeg_stdout = [], job_list = [],
      CurrentJobEntry = NoEntry, suspend_on_joblist_end = False,
      app_status_label = (StatusIdle, Black), logged = [], dialogs = [], disk = [],
      written = [], spawned = [], removed = [], scheduled = [], suspended = 0,
      raised = False\<rparr>"

text \<open>Three jobs in the queue, the second one done already; and a queue with the job on \<open>d\<close>.\<close>

definition three_jobs :: "(string \<times> job_entry) list" where
  "three_jobs =
     [(''job 1'', \<lparr>job_project = sample_project ''a'' ''oa'', done_flag = False\<rparr>),
      (''job 2'', \<lparr>job_project = sample_project ''b'' ''ob'', done_flag = True\<rparr>),
      (''job 3'', \<lparr>job_project = sample_project ''c'' ''oc'', done_flag = False\<rparr>)]"

definition odd_job :: "(string \<times> job_entry) list" where
  "odd_job = [(''job d'', \<lparr>job_project = sample_project ''d'' ''od'', done_flag = False\<rparr>)]"

section \<open>Notions used in the statements\<close>

text \<open>
  The place \<open>stabilize_image\<close> gets from \<open>match_template\<close> for a frame, relative to the
  search stripe; and whether one of the two overflow estimates is negative.
\<close>

definition matched_in :: "world \<Rightarrow> frame \<Rightarrow> afterscan \<Rightarrow> int \<times> int" where
  "matched_in wd img st =
     snd (match_template wd (film_hole_template st) (get_image_left_stripe st img)
            (StabilizationThreshold st) st)"

definition out_of_bounds :: "alignment \<Rightarrow> bool" where
  "out_of_bounds a \<longleftrightarrow> missing_bottom a < 0 \<or> missing_top a < 0"

text \<open>The check of \<open>frame_generation_loop\<close> on the frame it is about to write.\<close>

definition odd_dimension :: "frame \<Rightarrow> bool" where
  "odd_dimension img \<longleftrightarrow> int (width img) mod 2 = 1 \<or> int (height img) mod 2 = 1"

text \<open>
  Sample states. \<open>preview_state\<close>: the sample installation with the search area of its
  frames and a crop rectangle that covers a frame, outside the conversion loop (as when a
  frame is previewed). \<open>custom_state\<close>: the same with a custom template expected at
  \<open>(1, 2)\<close>. \<open>convert_state\<close>: inside the conversion loop on directory \<open>a\<close>, about to
  stabilize its second frame, whose hole is two rows too low.
\<close>

definition preview_state :: afterscan where
  "preview_state =
     (initial_state sample_world)\<lparr>HoleSearchBottomRight := (2, 6), CropBottomRight := (10, 6)\<rparr>"

definition custom_state :: afterscan where
  "custom_state = preview_state\<lparr>CustomTemplateDefined := True, expected_pattern_pos := (1, 2)\<rparr>"

definition convert_state :: afterscan where
  "convert_state =
     preview_state\<lparr>ConvertLoopRunning := True, perform_stabilization := True,
                   SourceDirFileList := sample_files ''a'', TargetDir := ''oa'',
                   first_absolute_frame := 1, frames_to_encode := 2, CurrentFrame := 1\<rparr>"

text \<open>
  More sample states and worlds. \<open>probe_state\<close> and \<open>two_mark_frame\<close>: the two probe
  patterns are different pixels, and the frame shows the black-on-white mark (9) below the
  white-on-black mark (7), as a frame of the other film type would; \<open>yes_world\<close> is the
  sample world with a user who answers yes. \<open>nowhere_state\<close>: the conversion of
  \<open>convert_state\<close> with a target directory that does not exist. \<open>odd_state\<close>: the
  conversion of directory \<open>d\<close> as a batch job, about to process its second frame, the
  frame of one pixel. \<open>pending_state\<close>, \<open>missing_state\<close>, \<open>ready_state\<close>: the encoder loop
  is about to start with no frame to encode, with the second of two frames missing from
  the list of the target directory, and with both frames there. \<open>queue_state\<close>: the batch
  has been started on the three jobs.
\<close>

definition mark_pattern :: frame where
  "mark_pattern = \<lparr>height = 1, width = 1, rows = [[7]]\<rparr>"

definition two_mark_frame :: frame where
  "two_mark_frame =
     \<lparr>height = 6, width = 10,
      rows = map (\<lambda>r. map (\<lambda>c. if r = 4 \<and> c = 1 then 9 else if r = 1 \<and> c = 1 then 7 else 0)
                    [0..<10]) [0..<6]\<rparr>"

definition probe_state :: afterscan where
  "probe_state = preview_state\<lparr>film_wb_template := mark_pattern\<rparr>"

definition yes_world :: world where
  "yes_world = sample_world\<lparr>w_askyesno := (\<lambda>d. True)\<rparr>"

definition nowhere_state :: afterscan where
  "nowhere_state = convert_state\<lparr>TargetDir := ''nowhere''\<rparr>"

definition odd_state :: afterscan where
  "odd_state =
     (initial_state sample_world)
       \<lparr>SourceDirFileList := sample_files ''d'', TargetDir := ''od'', first_absolute_frame := 1,
        frames_to_encode := 3, CurrentFrame := 1, ConvertLoopRunning := True,
        BatchJobRunning := True, CurrentJobEntry := Entry ''job d'', job_list := odd_job,
        scheduled := [FrameGenerationLoop]\<rparr>"

definition pending_state :: afterscan where
  "pending_state = (initial_state sample_world)\<lparr>ConvertLoopRunning := True, generate_video := True\<rparr>"

definition missing_state :: afterscan where
  "missing_state =
     pending_state\<lparr>TargetDir := ''oa'', first_absolute_frame := 1, frames_to_encode := 2,
                   TargetDirFileList := [''oa/picture_out-00001.jpg'']\<rparr>"

definition ready_state :: afterscan where
  "ready_state =
     missing_state\<lparr>TargetDirFileList := [''oa/picture_out-00001.jpg'', ''oa/picture_out-00002.jpg'']\<rparr>"

definition queue_state :: afterscan where
  "queue_state = (initial_state sample_world)\<lparr>job_list := three_jobs, BatchJobRunning := True\<rparr>"

text \<open>
  The configured search area lies inside a frame; and the two matches of the film type
  probe \<open>determine_hole_height\<close>: the pattern active for the configured film type first.
\<close>

definition search_area_in_frame :: "afterscan \<Rightarrow> frame \<Rightarrow> bool" where
  "search_area_in_frame st img \<longleftrightarrow>
     0 \<le> fst (HoleSearchTopLeft st) \<and> fst (HoleSearchTopLeft st) \<le> fst (HoleSearchBottomRight st) \<and>
     fst (HoleSearchBottomRight st) \<le> int (width img) \<and>
     0 \<le> snd (HoleSearchTopLeft st) \<and> snd (HoleSearchTopLeft st) \<le> snd (HoleSearchBottomRight st) \<and>
     snd (HoleSearchBottomRight st) \<le> int (height img)"

definition probe_matches :: "world \<Rightarrow> frame \<Rightarrow> afterscan \<Rightarrow> (int \<times> int) \<times> (int \<times> int)" where
  "probe_matches wd img st =
     (let r8 = (p_FilmType (project_config st) = ''R8'');
          search_img = get_image_left_stripe st img
      in (snd (match_template wd (if r8 then film_wb_template st else film_bw_template st) search_img 230 st),
          snd (match_template wd (if r8 then film_bw_template st else film_wb_template st) search_img 230 st)))"

text \<open>The frame the stabilization of a turn of the frame loop works on.\<close>

definition stabilized_input :: "world \<Rightarrow> afterscan \<Rightarrow> frame \<Rightarrow> frame" where
  "stabilized_input wd st img0 = (if perform_rotation st then rotate_image wd st img0 else img0)"

definition frame_turn :: "world \<Rightarrow> afterscan \<Rightarrow> frame \<Rightarrow> bool" where
  "frame_turn wd st img0 \<longleftrightarrow>
     StartFrame st \<le> CurrentFrame st \<and> CurrentFrame st < StartFrame st + frames_to_encode st \<and>
     \<not> ConvertLoopExitRequested st \<and>
     (case py_index (SourceDirFileList st) (CurrentFrame st) of
        None \<Rightarrow> False | Some file \<Rightarrow> w_imread wd file = Some img0)"

section \<open>Properties of the frame transform stage\<close>

subsection \<open>Slices that start at the origin\<close>

lemma even_end: "(if int n mod 2 = 1 then int n - 1 else int n) = int (n - n mod 2)"
  by presburger

lemma py_slice_bounds_0: "py_slice_bounds n 0 (int e) = (0, min e n)"
  by (simp add: py_slice_bounds_def Let_def)

lemma np_slice_0:
  "np_slice img 0 (int y) 0 (int x) =
     \<lparr>height = min y (height img), width = min x (width img),
      rows = map (take (min x (width img))) (take (min y (height img)) (rows img))\<rparr>"
  by (simp add: np_slice_def py_slice_bounds_0)

subsection \<open>\<open>even_image\<close>\<close>

text \<open>
  The slice branch of \<open>even_image\<close> is taken as soon as one dimension is larger than one;
  otherwise both adjusted ends are zero and the guard returns the input itself.
\<close>

lemma even_image_slice:
  "1 < width img \<or> 1 < height img \<Longrightarrow>
   even_image img = \<lparr>height = height img - height img mod 2, width = width img - width img mod 2,
      rows = map (take (width img - width img mod 2)) (take (height img - height img mod 2) (rows img))\<rparr>"
  unfolding even_image_def Let_def even_end np_slice_0
  by (auto simp: min_def)

lemma even_image_small:
  "width img \<le> 1 \<Longrightarrow> height img \<le> 1 \<Longrightarrow> even_image img = img"
  unfolding even_image_def Let_def even_end np_slice_0
  by (cases "width img = 0"; cases "height img = 0") (auto simp: min_def)

lemma even_image_even:
  "1 < width img \<or> 1 < height img \<Longrightarrow>
   even (width (even_image img)) \<and> even (height (even_image img))"
  by (simp add: even_image_slice)

lemma even_image_idem: "even_image (even_image img) = even_image img"
proof (cases "1 < width img \<or> 1 < height img")
  case True
  let ?e = "even_image img"
  have w: "width ?e = width img - width img mod 2"
    and h: "height ?e = height img - height img mod 2"
    using True by (simp_all add: even_image_slice)
  have we: "width ?e mod 2 = 0" and he: "height ?e mod 2 = 0"
    unfolding w h by presburger+
  have r: "rows ?e = map (take (width ?e)) (take (height ?e) (rows img))"
    using True by (simp add: even_image_slice)
  show ?thesis
  proof (cases "1 < width ?e \<or> 1 < height ?e")
    case True
    then have "even_image ?e = \<lparr>height = height ?e, width = width ?e,
        rows = map (take (width ?e)) (take (height ?e) (rows ?e))\<rparr>"
      by (simp add: even_image_slice [of ?e] we he)
    also have "\<dots> = ?e"
      by (simp add: r take_map)
    finally show ?thesis .
  next
    case False
    then show ?thesis by (simp add: even_image_small)
  qed
next
  case False
  then show ?thesis by (simp add: even_image_small)
qed

lemma even_image_pixels:
  assumes "wf_image img" "1 < width img \<or> 1 < height img"
    and "r < height (even_image img)" "c < width (even_image img)"
  shows "pixel (even_image img) r c = pixel img r c"
  using assms by (simp add: even_image_slice pixel_def wf_image_def)

lemma even_image_wf:
  assumes "wf_image img"
  shows "wf_image (even_image img)"
proof (cases "1 < width img \<or> 1 < height img")
  case True
  then show ?thesis using assms
    by (auto simp: even_image_slice wf_image_def list_all_iff dest: in_set_takeD)
next
  case False
  then show ?thesis using assms by (simp add: even_image_small)
qed

subsection \<open>\<open>crop_image\<close>\<close>

text \<open>One axis of the crop: the number of elements the adjusted slice keeps is even.\<close>

lemma slice_len_even:
  assumes "0 \<le> a" "a \<le> b"
  shows "even (snd (py_slice_bounds n a
           (if (min b (int n) - a) mod 2 = 1 then min b (int n) - 1 else min b (int n))))"
proof (cases "a < int n")
  case True
  then have m: "a \<le> min b (int n)" using assms by simp
  show ?thesis
  proof (cases "(min b (int n) - a) mod 2 = 1")
    case odd: True
    then have "min b (int n) \<noteq> a" by auto
    then have "a \<le> min b (int n) - 1" using m by linarith
    then show ?thesis using odd assms True
      by (simp add: py_slice_bounds_def Let_def min_def even_nat_iff) presburger
  next
    case ev: False
    then show ?thesis using assms True m
      by (simp add: py_slice_bounds_def Let_def even_nat_iff min_def) presburger
  qed
next
  case False
  then show ?thesis using assms
    by (auto simp: py_slice_bounds_def Let_def min_def max_def)
qed

lemma crop_image_even:
  assumes "valid_crop_rectangle top_left botton_right"
  shows "even (width (crop_image img top_left botton_right)) \<and>
         even (height (crop_image img top_left botton_right))"
proof -
  have x: "0 \<le> fst top_left" "fst top_left \<le> fst botton_right"
    and y: "0 \<le> snd top_left" "snd top_left \<le> snd botton_right"
    using assms by (simp_all add: valid_crop_rectangle_def)
  show ?thesis
    unfolding crop_image_def np_slice_def Let_def
    using slice_len_even [OF x, of "width img"] slice_len_even [OF y, of "height img"]
    by (simp add: split_beta)
qed

lemma crop_end_int:
  "0 \<le> b \<Longrightarrow>
   (if (min b (int n) - 0) mod 2 = 1 then min b (int n) - 1 else min b (int n)) = int (crop_end b n)"
  unfolding crop_end_def by (simp add: min_def) presburger

lemma crop_end_fix: "0 \<le> b \<Longrightarrow> crop_end b (crop_end b n) = crop_end b n"
  unfolding crop_end_def by (simp add: min_def) presburger

lemma crop_end_le: "crop_end b n \<le> n"
  unfolding crop_end_def by simp

lemma crop_image_origin:
  assumes "0 \<le> fst br" "0 \<le> snd br"
  shows "crop_image img (0, 0) br =
     \<lparr>height = crop_end (snd br) (height img), width = crop_end (fst br) (width img),
      rows = map (take (crop_end (fst br) (width img)))
               (take (crop_end (snd br) (height img)) (rows img))\<rparr>"
  using crop_end_int [OF assms(1), of "width img"] crop_end_int [OF assms(2), of "height img"]
  by (simp add: crop_image_def Let_def np_slice_0 min_absorb1 crop_end_le)

lemma crop_image_idem_origin:
  assumes "0 \<le> fst br" "0 \<le> snd br"
  shows "crop_image (crop_image img (0, 0) br) (0, 0) br = crop_image img (0, 0) br"
  by (simp add: crop_image_origin [OF assms] crop_end_fix assms take_map)

lemma crop_3x3: "crop_image frame_3x3 (1, 1) (3, 3) = frame_2x2"
  by code_simp

lemma crop_2x2: "crop_image frame_2x2 (1, 1) (3, 3) = frame_empty"
  by code_simp

lemma even_image_3x3:
  "even_image frame_3x3 = \<lparr>height = 2, width = 2, rows = [[0, 1], [10, 11]]\<rparr>"
  by code_simp

lemma even_image_1x1: "even_image frame_1x1 = frame_1x1"
  by code_simp

subsection \<open>Even output dimensions and idempotence (C4)\<close>

text \<open>
  C4, as the code has it. For every crop rectangle whose corners are ordered and not
  negative and every frame, \<open>crop_image\<close> returns a frame of even width and even height.
  \<open>even_image\<close> returns a frame of even width and even height whenever the input is
  more than one pixel wide or more than one pixel high (a frame of at most one pixel in
  each direction is returned as it is by the guard \<open>X_end != 0 or Y_end != 0\<close>).
  \<open>even_image\<close> is idempotent on every frame; \<open>crop_image\<close> is idempotent for a
  rectangle whose top left corner is the origin: the rectangle is in the coordinates of
  the frame it is applied to, so a second crop with another origin cuts again.
\<close>

theorem crop_even_image_even_dimensions:
  assumes "valid_crop_rectangle top_left botton_right"
  shows "even (width (crop_image img top_left botton_right)) \<and>
         even (height (crop_image img top_left botton_right)) \<and>
         (1 < width img \<or> 1 < height img \<longrightarrow>
            even (width (even_image img)) \<and> even (height (even_image img))) \<and>
         even_image (even_image img) = even_image img \<and>
         (top_left = (0, 0) \<longrightarrow>
            crop_image (crop_image img top_left botton_right) top_left botton_right =
            crop_image img top_left botton_right)"
proof -
  have "top_left = (0, 0) \<longrightarrow>
      crop_image (crop_image img top_left botton_right) top_left botton_right =
      crop_image img top_left botton_right"
  proof
    assume o: "top_left = (0, 0)"
    with assms have "0 \<le> fst botton_right" "0 \<le> snd botton_right"
      by (simp_all add: valid_crop_rectangle_def)
    then show "crop_image (crop_image img top_left botton_right) top_left botton_right =
      crop_image img top_left botton_right"
      unfolding o by (rule crop_image_idem_origin)
  qed
  then show ?thesis
    using crop_image_even [OF assms, of img] even_image_even [of img] even_image_idem [of img]
    by blast
qed

theorem crop_even_image_even_dimensions_witness:
  "valid_crop_rectangle (0, 0) (3, 3) \<and> 1 < width frame_3x3 \<and>
   even (width (crop_image frame_3x3 (0, 0) (3, 3))) \<and>
   even (height (crop_image frame_3x3 (0, 0) (3, 3))) \<and>
   even (width (even_image frame_3x3)) \<and> even (height (even_image frame_3x3)) \<and>
   even_image (even_image frame_3x3) = even_image frame_3x3 \<and>
   crop_image (crop_image frame_3x3 (0, 0) (3, 3)) (0, 0) (3, 3) =
     crop_image frame_3x3 (0, 0) (3, 3)"
proof -
  have v: "valid_crop_rectangle (0, 0) (3, 3)"
    by (simp add: valid_crop_rectangle_def)
  have w: "1 < width frame_3x3"
    by (simp add: frame_3x3_def)
  show ?thesis
    using v w crop_even_image_even_dimensions [OF v, of frame_3x3] by simp
qed

text \<open>
  The claim as stated fails twice: \<open>even_image\<close> returns a frame of one pixel unchanged,
  with odd width and height, and a second crop of a 3 by 3 frame with the valid rectangle
  \<open>(1, 1)\<close> to \<open>(3, 3)\<close> turns the 2 by 2 result of the first crop into an empty frame.
\<close>

theorem crop_even_image_counterexample:
  "\<not> even (width (even_image frame_1x1)) \<and> \<not> even (height (even_image frame_1x1)) \<and>
   valid_crop_rectangle (1, 1) (3, 3) \<and>
   crop_image (crop_image frame_3x3 (1, 1) (3, 3)) (1, 1) (3, 3) \<noteq>
     crop_image frame_3x3 (1, 1) (3, 3)"
  unfolding crop_3x3 crop_2x2 even_image_1x1
  by (simp add: valid_crop_rectangle_def frame_2x2_def frame_empty_def frame_1x1_def)

subsection \<open>\<open>even_image\<close> keeps the top left part of the frame (C10)\<close>

text \<open>
  C10, as the code has it. For every well-formed frame that is more than one pixel wide or
  more than one pixel high, \<open>even_image\<close> returns the part of the frame anchored at its
  top left corner: the output width is the input width minus (width mod 2), the output
  height is the input height minus (height mod 2), every pixel kept is the pixel of the
  input at the same row and column, so at most one row and one column are dropped and
  nothing is resampled or shifted. A frame of at most one pixel in each direction is
  returned as it is. The function only reads its argument: the result is a new value
  (a view, in numpy), and no statement of the source writes to \<open>img\<close>.
\<close>

theorem even_image_top_left_part:
  assumes "wf_image img"
  shows "(1 < width img \<or> 1 < height img \<longrightarrow>
            width (even_image img) = width img - width img mod 2 \<and>
            height (even_image img) = height img - height img mod 2 \<and>
            width img - width (even_image img) \<le> 1 \<and>
            height img - height (even_image img) \<le> 1 \<and>
            (\<forall>r c. r < height (even_image img) \<and> c < width (even_image img) \<longrightarrow>
               pixel (even_image img) r c = pixel img r c)) \<and>
         (width img \<le> 1 \<and> height img \<le> 1 \<longrightarrow> even_image img = img) \<and>
         wf_image (even_image img)"
proof -
  have "width (even_image img) = width img - width img mod 2 \<and>
        height (even_image img) = height img - height img mod 2 \<and>
        width img - width (even_image img) \<le> 1 \<and>
        height img - height (even_image img) \<le> 1"
    if "1 < width img \<or> 1 < height img"
    using that by (simp add: even_image_slice) presburger
  moreover have "\<forall>r c. r < height (even_image img) \<and> c < width (even_image img) \<longrightarrow>
        pixel (even_image img) r c = pixel img r c"
    if "1 < width img \<or> 1 < height img"
    using even_image_pixels [OF assms that] by blast
  ultimately show ?thesis
    using even_image_small [of img] even_image_wf [OF assms] by blast
qed

theorem even_image_top_left_part_witness:
  "wf_image frame_3x3 \<and> 1 < width frame_3x3 \<and>
   width (even_image frame_3x3) = 2 \<and> height (even_image frame_3x3) = 2 \<and>
   pixel (even_image frame_3x3) 1 1 = pixel frame_3x3 1 1 \<and>
   wf_image (even_image frame_3x3)"
proof -
  have wf: "wf_image frame_3x3"
    by (simp add: wf_image_def frame_3x3_def)
  have w: "1 < width frame_3x3" "width frame_3x3 = 3" "height frame_3x3 = 3"
    by (simp_all add: frame_3x3_def)
  have m: "(3::nat) - 3 mod 2 = 2" "(1::nat) < 2"
    by simp_all
  show ?thesis
    using wf w m even_image_top_left_part [OF wf] by metis
qed

text \<open>
  The claim as stated fails for the smallest frame that is not empty: a frame of one pixel
  comes back one pixel wide and one pixel high, where the claim says 0 by 0.
\<close>

theorem even_image_one_pixel_counterexample:
  "wf_image frame_1x1 \<and> rows frame_1x1 \<noteq> [] \<and>
   width (even_image frame_1x1) \<noteq> width frame_1x1 - width frame_1x1 mod 2 \<and>
   height (even_image frame_1x1) \<noteq> height frame_1x1 - height frame_1x1 mod 2"
  unfolding even_image_1x1 by (simp add: frame_1x1_def wf_image_def)

section \<open>Properties of the template registry\<close>

lemma update_dependent_Refreshed:
  assumes "update_dependent resize self img = (Refreshed, t')"
  shows "scale t' = scale self \<and> position t' = position self \<and> ttype t' = ttype self \<and>
     template t' = template self \<and>
     tsize t' = (int (width img), int (height img)) \<and>
     scaled_size t' = (py_int (of_int (fst (tsize t')) * scale t'), py_int (of_int (snd (tsize t')) * scale t')) \<and>
     scaled_position t' = (py_int (of_int (fst (position t')) * scale t'), py_int (of_int (snd (position t')) * scale t')) \<and>
     scaled_template t' = resize_image_ratio resize img (scale t')"
  using assms by (auto simp: update_dependent_def Let_def split: option.splits)

lemma refresh_sample:
  "refresh sample_imread sample_resize (sample_template ''Pattern.S8.jpg'') 1521 =
   (Refreshed,
    \<lparr>tname = ''S8'', filename = ''Pattern.S8.jpg'', ttype = ''S8'',
     position = (1, 1), scale = 3 / 4, tsize = (2, 2),
     scaled_position = (0, 0), scaled_size = (1, 1), wb_proportion = 1,
     template = Some frame_2x2,
     scaled_template = Some \<lparr>height = 1, width = 1, rows = [[11]]\<rparr>,
     white_pixel_count = 1\<rparr>)"
  by code_simp

lemma refresh_missing:
  "refresh sample_imread sample_resize (sample_template ''missing.jpg'') 1521 =
   (LoadFailed, sample_template ''missing.jpg'')"
  by code_simp

lemma py_round_three_quarters: "py_round (3 / 4) = 1"
  by code_simp

lemma refresh_loaded_again:
  "refresh sample_imread sample_resize
     (snd (refresh sample_imread sample_resize (sample_template ''Pattern.S8.jpg'') 1521)) 10 =
   (ResizeRaised,
    \<lparr>tname = ''S8'', filename = ''Pattern.S8.jpg'', ttype = ''S8'',
     position = (1, 1), scale = 10 / 2028, tsize = (2, 2),
     scaled_position = (0, 0), scaled_size = (1, 1), wb_proportion = 1,
     template = Some frame_2x2,
     scaled_template = Some \<lparr>height = 1, width = 1, rows = [[11]]\<rparr>,
     white_pixel_count = 1\<rparr>)"
  by code_simp

lemma py_int_small: "py_int (5 / 507) = 0"
  by code_simp

subsection \<open>What \<open>refresh\<close> leaves behind (C3)\<close>

text \<open>
  C3, as the code has it. Take any template and any call \<open>refresh(width)\<close>; the image of
  the call is the one the template holds already or else the one \<open>cv2.imread\<close> reads from
  its file. If there is no such image, the call returns early and leaves every field,
  \<open>scale\<close> included, as it was. If there is one, \<open>scale\<close> is \<open>width / 2028\<close> after the call
  when the type is not \<open>'custom'\<close> and \<open>1.0\<close> when it is. If moreover the resize of the
  image to that scale succeeds, the call runs to its end and the derived fields are
  \<open>scaled_position = int(position * scale)\<close> and \<open>scaled_size = int(size * scale)\<close> with
  \<open>size\<close> the size of the image, componentwise and truncated toward zero (the source calls
  \<open>int\<close>, not \<open>round\<close>), together with the resized image and its pixel counts, all from
  the scale just set. If the resize raises, the new scale has been assigned already and
  every derived field keeps its old value.
\<close>

theorem refresh_recomputes_together:
  "(let new_scale = (if ttype self = ''custom'' then 1 else of_int w / 2028);
        r = refresh imread resize self w;
        t' = snd r
    in case (case template self of None \<Rightarrow> imread (filename self) | Some i \<Rightarrow> Some i) of
         None \<Rightarrow> r = (LoadFailed, self)
       | Some img \<Rightarrow>
           scale t' = new_scale \<and> template t' = Some img \<and>
           position t' = position self \<and> ttype t' = ttype self \<and>
           filename t' = filename self \<and> tname t' = tname self \<and>
           (case resize_image_ratio resize img new_scale of
              Some sc \<Rightarrow>
                fst r = Refreshed \<and>
                tsize t' = (int (width img), int (height img)) \<and>
                scaled_position t' = (py_int (of_int (fst (position self)) * scale t'),
                                      py_int (of_int (snd (position self)) * scale t')) \<and>
                scaled_size t' = (py_int (of_int (fst (tsize t')) * scale t'),
                                  py_int (of_int (snd (tsize t')) * scale t')) \<and>
                scaled_template t' = Some sc \<and>
                white_pixel_count t' = countNonZero sc \<and>
                wb_proportion t' =
                  (if 0 < np_size sc then of_nat (countNonZero sc) / of_nat (np_size sc) else 1 / 2)
            | None \<Rightarrow>
                r = (ResizeRaised, self\<lparr>template := Some img, scale := new_scale\<rparr>)))"
proof (cases "case template self of None \<Rightarrow> imread (filename self) | Some i \<Rightarrow> Some i")
  case None
  then show ?thesis by (simp add: refresh_def Let_def)
next
  case (Some img)
  let ?s = "if ttype self = ''custom'' then 1 else of_int w / 2028 :: rat"
  let ?self = "self\<lparr>template := Some img, scale := ?s\<rparr>"
  have r: "refresh imread resize self w = update_dependent resize ?self img"
    using Some by (simp add: refresh_def Let_def)
  show ?thesis
  proof (cases "resize_image_ratio resize img ?s")
    case None
    then have "update_dependent resize ?self img = (ResizeRaised, ?self)"
      by (simp add: update_dependent_def)
    with Some None r show ?thesis by (simp add: Let_def)
  next
    case (Some sc)
    then have u: "update_dependent resize ?self img =
        (Refreshed,
         ?self\<lparr>scaled_template := Some sc,
                white_pixel_count := countNonZero sc,
                wb_proportion :=
                  (if 0 < np_size sc then of_nat (countNonZero sc) / of_nat (np_size sc) else 1 / 2),
                tsize := (int (width img), int (height img)),
                scaled_size := (py_int (of_int (int (width img)) * ?s), py_int (of_int (int (height img)) * ?s)),
                scaled_position :=
                  (py_int (of_int (fst (position self)) * ?s),
                   py_int (of_int (snd (position self)) * ?s))\<rparr>)"
      by (simp add: update_dependent_def Let_def)
    from \<open>(case template self of None \<Rightarrow> imread (filename self) | Some i \<Rightarrow> Some i) = Some img\<close>
      Some show ?thesis
      unfolding Let_def r u by simp
  qed
qed

theorem refresh_recomputes_together_witness:
  "template (sample_template ''Pattern.S8.jpg'') = None \<and>
   sample_imread (filename (sample_template ''Pattern.S8.jpg'')) = Some frame_2x2 \<and>
   resize_image_ratio sample_resize frame_2x2 (1521 / 2028) =
     Some \<lparr>height = 1, width = 1, rows = [[11]]\<rparr> \<and>
   fst (refresh sample_imread sample_resize (sample_template ''Pattern.S8.jpg'') 1521) = Refreshed \<and>
   scale (snd (refresh sample_imread sample_resize (sample_template ''Pattern.S8.jpg'') 1521)) =
     1521 / 2028 \<and>
   scaled_position (snd (refresh sample_imread sample_resize (sample_template ''Pattern.S8.jpg'') 1521)) =
     (py_int (1 * (1521 / 2028)), py_int (1 * (1521 / 2028))) \<and>
   scaled_size (snd (refresh sample_imread sample_resize (sample_template ''Pattern.S8.jpg'') 1521)) =
     (py_int (2 * (1521 / 2028)), py_int (2 * (1521 / 2028))) \<and>
   sample_imread (filename (sample_template ''missing.jpg'')) = None \<and>
   refresh sample_imread sample_resize (sample_template ''missing.jpg'') 1521 =
     (LoadFailed, sample_template ''missing.jpg'')"
proof -
  have i: "template (sample_template ''Pattern.S8.jpg'') = None"
    "sample_imread (filename (sample_template ''Pattern.S8.jpg'')) = Some frame_2x2"
    "template (sample_template ''missing.jpg'') = None"
    "sample_imread (filename (sample_template ''missing.jpg'')) = None"
    "ttype (sample_template ''Pattern.S8.jpg'') = ''S8''"
    "position (sample_template ''Pattern.S8.jpg'') = (1, 1)"
    "sample_imread ''Pattern.S8.jpg'' = Some frame_2x2" "sample_imread ''missing.jpg'' = None"
    "filename (sample_template ''Pattern.S8.jpg'') = ''Pattern.S8.jpg''"
    "filename (sample_template ''missing.jpg'') = ''missing.jpg''"
    by (simp_all add: sample_template_def sample_imread_def)
  have p: "py_int (3 / 4) = 0" "py_int (3 / 2) = 1"
    by code_simp+
  have z: "resize_image_ratio sample_resize frame_2x2 (3 / 4) =
      Some \<lparr>height = 1, width = 1, rows = [[11]]\<rparr>"
    by code_simp
  have d: "width frame_2x2 = 2" "height frame_2x2 = 2"
    by (simp_all add: frame_2x2_def)
  show ?thesis
    using refresh_recomputes_together
      [where imread = sample_imread and resize = sample_resize
         and self = "sample_template ''Pattern.S8.jpg''" and w = 1521]
      refresh_recomputes_together
      [where imread = sample_imread and resize = sample_resize
         and self = "sample_template ''missing.jpg''" and w = 1521]
    unfolding refresh_sample refresh_missing
    by (simp add: Let_def i z d p)
qed

text \<open>
  The claim as stated fails three times. A default template at position \<open>(1, 1)\<close>,
  refreshed for a width of 1521, has scale \<open>1521 / 2028 = 0.75\<close> (exact as a float) and
  the scaled position \<open>(0, 0)\<close>, where rounding \<open>0.75\<close> gives 1. A default template whose
  file is missing keeps its old scale 1 through the call. And the template of the first
  call, refreshed again for a width of 10, for which the resize raises, has the new scale
  \<open>10 / 2028\<close> beside the scaled size \<open>(1, 1)\<close> of the scale before.
\<close>

theorem refresh_round_counterexample:
  "fst (refresh sample_imread sample_resize (sample_template ''Pattern.S8.jpg'') 1521) = Refreshed \<and>
   position (snd (refresh sample_imread sample_resize (sample_template ''Pattern.S8.jpg'') 1521)) = (1, 1) \<and>
   scale (snd (refresh sample_imread sample_resize (sample_template ''Pattern.S8.jpg'') 1521)) = 3 / 4 \<and>
   scaled_position (snd (refresh sample_imread sample_resize (sample_template ''Pattern.S8.jpg'') 1521)) \<noteq>
     (py_round (1 * (3 / 4)), py_round (1 * (3 / 4))) \<and>
   ttype (sample_template ''missing.jpg'') \<noteq> ''custom'' \<and>
   scale (snd (refresh sample_imread sample_resize (sample_template ''missing.jpg'') 1521)) \<noteq>
     1521 / 2028 \<and>
   scale (snd (refresh sample_imread sample_resize
            (snd (refresh sample_imread sample_resize (sample_template ''Pattern.S8.jpg'') 1521)) 10)) =
     10 / 2028 \<and>
   tsize (snd (refresh sample_imread sample_resize
            (snd (refresh sample_imread sample_resize (sample_template ''Pattern.S8.jpg'') 1521)) 10)) =
     (2, 2) \<and>
   scaled_size (snd (refresh sample_imread sample_resize
            (snd (refresh sample_imread sample_resize (sample_template ''Pattern.S8.jpg'') 1521)) 10)) \<noteq>
     (py_int (2 * (10 / 2028)), py_int (2 * (10 / 2028)))"
  unfolding refresh_loaded_again unfolding refresh_sample refresh_missing
  by (simp add: sample_template_def py_round_three_quarters py_int_small)

section \<open>Properties of the alignment engine\<close>

lemma stabilize_alignment_logged [simp]:
  "stabilize_alignment (st\<lparr>logged := l\<rparr>) = stabilize_alignment st"
  by (simp add: stabilize_alignment_def fun_eq_iff Let_def)

lemma get_image_left_stripe_logged [simp]:
  "get_image_left_stripe (st\<lparr>logged := l\<rparr>) = get_image_left_stripe st"
  by (simp add: get_image_left_stripe_def fun_eq_iff)

lemma match_template_cases:
  "match_template wd tmpl img thres st =
     (if width img \<le> width tmpl \<or> height img \<le> height tmpl
      then (st\<lparr>logged := logged st @
                 [LogTemplateBigger (width tmpl) (height tmpl) (int (width img)) (int (height img))]\<rparr>,
            (0, 0))
      else (st, w_match wd tmpl img))"
  by (simp add: match_template_def)

lemma match_template_state:
  "fst (match_template wd tmpl img thres st) =
     st\<lparr>logged := logged (fst (match_template wd tmpl img thres st))\<rparr>"
  by (simp add: match_template_cases)

lemma stabilize_image_unfold:
  "stabilize_image wd img st =
     (let st1 = fst (match_template wd (film_hole_template st) (get_image_left_stripe st img)
                       (StabilizationThreshold st) st);
          a = stabilize_alignment st img (matched_in wd img st)
      in (if ConvertLoopRunning st \<and> out_of_bounds a then
            st1\<lparr>stabilization_bounds_alert_counter :=
                   (if ExpertMode st then Suc (stabilization_bounds_alert_counter st)
                    else stabilization_bounds_alert_counter st),
                logged := logged st1 @
                  [LogFrameAlignTag2 (project_name_tag st) (CurrentFrame st)
                     (if missing_top a < 0 then missing_top a else - missing_bottom a)
                     (move_y a) (move_x a)]\<rparr>
          else st1,
          w_warp wd img (move_x a, move_y a)))"
  by (simp add: stabilize_image_def Let_def split_beta matched_in_def out_of_bounds_def
      match_template_cases project_name_tag_def)

text \<open>Sample evaluations.\<close>

lemma sample_state_fields:
  "HoleSearchTopLeft preview_state = (0, 0)" "HoleSearchBottomRight preview_state = (2, 6)"
  "film_hole_template preview_state = hole_pattern" "\<not> CustomTemplateDefined preview_state"
  "expected_pattern_pos preview_state = (13 / 2, 34)"
  "CropTopLeft preview_state = (0, 0)" "CropBottomRight preview_state = (10, 6)"
  "\<not> ConvertLoopRunning preview_state" "logged preview_state = []"
  "HoleSearchTopLeft custom_state = (0, 0)" "HoleSearchBottomRight custom_state = (2, 6)"
  "film_hole_template custom_state = hole_pattern" "CustomTemplateDefined custom_state"
  "expected_pattern_pos custom_state = (1, 2)"
  by (simp_all add: preview_state_def custom_state_def initial_state_def sample_world_def
      expected_pattern_pos_s8_def)

lemma low_frame_dims: "width low_frame = 10" "height low_frame = 6"
  by (simp_all add: low_frame_def hole_frame_def)

lemma low_frame_stripe_dims:
  "width (np_slice low_frame 0 6 0 2) = 2" "height (np_slice low_frame 0 6 0 2) = 6"
  by code_simp+

lemma low_frame_find: "find_template hole_pattern (np_slice low_frame 0 6 0 2) = (1, 4)"
  by code_simp

lemma hole_pattern_dims: "width hole_pattern = 1" "height hole_pattern = 1"
  by (simp_all add: hole_pattern_def)

lemma sample_rounds: "py_round (13 / 20) = 1" "py_round (51 / 25) = 2"
  by code_simp+

lemma sample_w_match: "w_match sample_world = find_template"
  by (simp add: sample_world_def)

lemma sample_matched:
  "matched_in sample_world low_frame preview_state = (1, 4)"
  "matched_in sample_world low_frame custom_state = (1, 4)"
  by (simp_all add: matched_in_def get_image_left_stripe_def sample_state_fields match_template_cases
      low_frame_stripe_dims hole_pattern_dims low_frame_find sample_w_match)

subsection \<open>The shift (C1)\<close>

text \<open>
  C1. For every frame stabilized with a custom template (\<open>CustomTemplateDefined\<close>) the
  shift is the expected position minus the matched position, \<open>move_x = expected_x -
  matched_x\<close> and \<open>move_y = expected_y - matched_y\<close>, where the matched position is the
  result of \<open>match_template\<close> on the search stripe plus the stripe's top left corner
  (frame coordinates). With a default template the expected position is a percentage of
  the frame: \<open>move = round(expected% * dimension) - matched\<close>, on each axis. The frame
  returned is the input translated by that shift.
\<close>

theorem stabilize_image_shift:
  "(let matched = matched_in wd img st;
        a = stabilize_alignment st img matched
    in abs_top_left a =
         (fst matched + fst (HoleSearchTopLeft st), snd matched + snd (HoleSearchTopLeft st)) \<and>
       (CustomTemplateDefined st \<longrightarrow>
          move_x a = fst (expected_pattern_pos st) - of_int (fst (abs_top_left a)) \<and>
          move_y a = snd (expected_pattern_pos st) - of_int (snd (abs_top_left a))) \<and>
       (\<not> CustomTemplateDefined st \<longrightarrow>
          move_x a = of_int (py_round (fst (expected_pattern_pos st) / 100 * of_nat (width img)))
                     - of_int (fst (abs_top_left a)) \<and>
          move_y a = of_int (py_round (snd (expected_pattern_pos st) / 100 * of_nat (height img)))
                     - of_int (snd (abs_top_left a))) \<and>
       snd (stabilize_image wd img st) = w_warp wd img (move_x a, move_y a))"
  by (simp add: Let_def stabilize_image_unfold)
     (simp add: stabilize_alignment_def Let_def)

theorem stabilize_image_shift_witness:
  "\<not> CustomTemplateDefined preview_state \<and>
   matched_in sample_world (low_frame) preview_state = (1, 4) \<and>
   move_x (stabilize_alignment preview_state (low_frame) (1, 4)) = 0 \<and>
   move_y (stabilize_alignment preview_state (low_frame) (1, 4)) = - 2 \<and>
   snd (stabilize_image sample_world (low_frame) preview_state) =
     w_warp sample_world (low_frame) (0, - 2) \<and>
   CustomTemplateDefined custom_state \<and>
   move_x (stabilize_alignment custom_state (low_frame) (1, 4)) = 1 - 1 \<and>
   move_y (stabilize_alignment custom_state (low_frame) (1, 4)) = 2 - 4"
  using stabilize_image_shift [of sample_world "low_frame" preview_state]
    stabilize_image_shift [of sample_world "low_frame" custom_state]
  by (simp add: Let_def sample_matched sample_state_fields low_frame_dims sample_rounds)

subsection \<open>A template that does not fit (C8)\<close>

lemma py_slice_bounds_inside:
  "0 \<le> a \<Longrightarrow> a \<le> b \<Longrightarrow> b \<le> int n \<Longrightarrow> py_slice_bounds n a b = (nat a, nat (b - a))"
  by (simp add: py_slice_bounds_def Let_def)

lemma stripe_dims:
  assumes "0 \<le> fst (HoleSearchTopLeft st)" "fst (HoleSearchTopLeft st) \<le> fst (HoleSearchBottomRight st)"
    "fst (HoleSearchBottomRight st) \<le> int (width img)"
    "0 \<le> snd (HoleSearchTopLeft st)" "snd (HoleSearchTopLeft st) \<le> snd (HoleSearchBottomRight st)"
    "snd (HoleSearchBottomRight st) \<le> int (height img)"
  shows "int (width (get_image_left_stripe st img)) =
           fst (HoleSearchBottomRight st) - fst (HoleSearchTopLeft st)"
    and "int (height (get_image_left_stripe st img)) =
           snd (HoleSearchBottomRight st) - snd (HoleSearchTopLeft st)"
  using assms by (simp_all add: get_image_left_stripe_def np_slice_def py_slice_bounds_inside)

lemma validate_template_size_iff:
  "snd (validate_template_size st) \<longleftrightarrow>
     int (width (film_hole_template st)) < fst (HoleSearchBottomRight st) - fst (HoleSearchTopLeft st) \<and>
     int (height (film_hole_template st)) < snd (HoleSearchBottomRight st) - snd (HoleSearchTopLeft st)"
  by (auto simp: validate_template_size_def Let_def)

lemma start_convert_launch_invalid:
  assumes "\<not> generate_video st \<or> \<not> skip_frame_regeneration st" "\<not> snd (validate_template_size st)"
  shows "ConvertLoopExitRequested (start_convert_launch st)"
    and "TemplateBiggerThanSearchArea \<in> set (dialogs (start_convert_launch st))"
    and "scheduled (start_convert_launch st) = scheduled st @ [FrameGenerationLoop]"
  using assms
  by (auto simp: start_convert_launch_def Let_def split_beta validate_template_size_def)

text \<open>
  C8, as the code has it. For every template and search region where the template is as
  wide as the region or wider, or as high or higher, \<open>match_template\<close> does not raise: it
  logs an error and returns the coordinate \<open>(0, 0)\<close>, the value a successful match at the
  origin of the region returns too (there is no separate marker). A template smaller than
  the region on both axes is searched for. \<open>validate_template_size\<close> makes the same
  comparison with the size of the configured search area, which is the size of the stripe
  whenever the area lies inside the frame, and \<open>start_convert\<close> evaluates it once before
  the frames of a run are generated: a template that does not fit gives an error box and
  a request to stop the run.
\<close>

theorem match_template_oversize:
  "(width img \<le> width tmpl \<or> height img \<le> height tmpl \<longrightarrow>
      snd (match_template wd tmpl img thres st) = (0, 0) \<and>
      fst (match_template wd tmpl img thres st) =
        st\<lparr>logged := logged st @
              [LogTemplateBigger (width tmpl) (height tmpl) (int (width img)) (int (height img))]\<rparr>) \<and>
   (width tmpl < width img \<and> height tmpl < height img \<longrightarrow>
      match_template wd tmpl img thres st = (st, w_match wd tmpl img)) \<and>
   (search_area_in_frame st frm \<longrightarrow>
      (snd (validate_template_size st) \<longleftrightarrow>
         \<not> (width (get_image_left_stripe st frm) \<le> width (film_hole_template st) \<or>
            height (get_image_left_stripe st frm) \<le> height (film_hole_template st)))) \<and>
   ((\<not> generate_video st \<or> \<not> skip_frame_regeneration st) \<and> \<not> snd (validate_template_size st) \<longrightarrow>
      ConvertLoopExitRequested (start_convert_launch st) \<and>
      TemplateBiggerThanSearchArea \<in> set (dialogs (start_convert_launch st)))"
proof -
  have s: "snd (validate_template_size st) \<longleftrightarrow>
         \<not> (width (get_image_left_stripe st frm) \<le> width (film_hole_template st) \<or>
            height (get_image_left_stripe st frm) \<le> height (film_hole_template st))"
    if "search_area_in_frame st frm"
    using stripe_dims [of st frm] that
    unfolding validate_template_size_iff search_area_in_frame_def by linarith
  show ?thesis
    using s start_convert_launch_invalid [of st] by (simp add: match_template_cases)
qed

lemma corner_find: "find_template hole_pattern corner_frame = (0, 0)"
  by code_simp

lemma corner_occurs: "occurs_at hole_pattern corner_frame 0 0"
  by code_simp

lemma frame_dims:
  "width corner_frame = 10" "height corner_frame = 6" "width frame_2x2 = 2" "height frame_2x2 = 2"
  "width good_frame = 10" "height good_frame = 6"
  by (simp_all add: corner_frame_def good_frame_def hole_frame_def frame_2x2_def)

theorem match_template_oversize_witness:
  "width frame_2x2 \<le> width corner_frame \<and>
   snd (match_template sample_world corner_frame frame_2x2 230 preview_state) = (0, 0) \<and>
   logged (fst (match_template sample_world corner_frame frame_2x2 230 preview_state)) =
     [LogTemplateBigger 10 6 2 2] \<and>
   width hole_pattern < width corner_frame \<and> height hole_pattern < height corner_frame \<and>
   match_template sample_world hole_pattern corner_frame 230 preview_state =
     (preview_state, find_template hole_pattern corner_frame) \<and>
   search_area_in_frame preview_state good_frame \<and>
   snd (validate_template_size preview_state) \<and>
   \<not> generate_video (preview_state\<lparr>HoleSearchBottomRight := (1, 6)\<rparr>) \<and>
   \<not> snd (validate_template_size (preview_state\<lparr>HoleSearchBottomRight := (1, 6)\<rparr>)) \<and>
   ConvertLoopExitRequested (start_convert_launch (preview_state\<lparr>HoleSearchBottomRight := (1, 6)\<rparr>))"
proof -
  have g: "\<not> generate_video (preview_state\<lparr>HoleSearchBottomRight := (1, 6)\<rparr>)"
    by (simp add: preview_state_def initial_state_def)
  have v: "\<not> snd (validate_template_size (preview_state\<lparr>HoleSearchBottomRight := (1, 6)\<rparr>))"
    by (simp add: validate_template_size_iff sample_state_fields hole_pattern_dims)
  have a: "search_area_in_frame preview_state good_frame"
    by (simp add: search_area_in_frame_def sample_state_fields frame_dims)
  have v2: "snd (validate_template_size preview_state)"
    by (simp add: validate_template_size_iff sample_state_fields hole_pattern_dims)
  show ?thesis
    using g v a v2
      match_template_oversize [of frame_2x2 corner_frame sample_world 230 preview_state good_frame]
      match_template_oversize [of corner_frame hole_pattern sample_world 230 preview_state good_frame]
      match_template_oversize [of frame_2x2 corner_frame sample_world 230
         "preview_state\<lparr>HoleSearchBottomRight := (1, 6)\<rparr>" good_frame]
    by (simp add: frame_dims hole_pattern_dims sample_state_fields sample_w_match)
qed

text \<open>
  The claim as stated fails: the value returned for an oversize template (a 10 by 6
  template on a 2 by 2 region) is the value returned for a successful match (the hole
  pattern, which occurs at the origin of \<open>corner_frame\<close>), so the result does not tell the
  two apart.
\<close>

theorem match_template_marker_counterexample:
  "(width frame_2x2 \<le> width corner_frame \<or> height frame_2x2 \<le> height corner_frame) \<and>
   width hole_pattern < width corner_frame \<and> height hole_pattern < height corner_frame \<and>
   occurs_at hole_pattern corner_frame 0 0 \<and>
   snd (match_template sample_world corner_frame frame_2x2 230 preview_state) =
   snd (match_template sample_world hole_pattern corner_frame 230 preview_state)"
  by (simp add: match_template_cases frame_dims hole_pattern_dims sample_w_match corner_find corner_occurs)

subsection \<open>The film type probe (C9)\<close>

lemma adjust_hole_pattern_size_fields [simp]:
  "dialogs (adjust_hole_pattern_size wd st) = dialogs st"
  "film_type (adjust_hole_pattern_size wd st) = film_type st"
  "project_config (adjust_hole_pattern_size wd st) = project_config st"
  by (simp_all add: adjust_hole_pattern_size_def Let_def)

lemma set_film_type_fields [simp]:
  "dialogs (set_film_type wd st) = dialogs st"
  "film_type (set_film_type wd st) = film_type st"
  "p_FilmType (project_config (set_film_type wd st)) = film_type st"
  by (simp_all add: set_film_type_def Let_def)

lemma match_template_snd_logged [simp]:
  "snd (match_template wd tmpl img thres (st\<lparr>logged := l\<rparr>)) = snd (match_template wd tmpl img thres st)"
  by (simp add: match_template_cases)

text \<open>The probe written out on its two matches.\<close>

lemma determine_hole_height_unfold:
  obtains l where
    "determine_hole_height wd img st =
       (let p1 = fst (probe_matches wd img st); p2 = snd (probe_matches wd img st);
            other = (if p_FilmType (project_config st) = ''R8'' then ''S8'' else ''R8'')
        in if snd p2 < snd p1 \<and> \<not> BatchJobRunning st then
             (if w_askyesno wd WrongFilmTypeDetected then
                (set_film_type wd
                   (st\<lparr>logged := l, dialogs := dialogs st @ [WrongFilmTypeDetected],
                       film_type := other,
                       project_config := (project_config st)\<lparr>p_FilmType := other\<rparr>\<rparr>),
                 snd p1 - snd p2)
              else (st\<lparr>logged := l, dialogs := dialogs st @ [WrongFilmTypeDetected]\<rparr>, snd p2 - snd p1))
           else (st\<lparr>logged := l\<rparr>, snd p2 - snd p1))"
proof -
  define r8 where "r8 = (p_FilmType (project_config st) = ''R8'')"
  define t1 where "t1 = (if r8 then film_wb_template st else film_bw_template st)"
  define t2 where "t2 = (if r8 then film_bw_template st else film_wb_template st)"
  define s where "s = get_image_left_stripe st img"
  define l1 where "l1 = logged (fst (match_template wd t1 s 230 st))"
  define l2 where "l2 = logged (fst (match_template wd t2 s 230 (st\<lparr>logged := l1\<rparr>)))"
  have m1: "fst (match_template wd t1 s 230 st) = st\<lparr>logged := l1\<rparr>"
    unfolding l1_def by (rule match_template_state)
  have "fst (match_template wd t2 s 230 (st\<lparr>logged := l1\<rparr>)) = st\<lparr>logged := l1, logged := l2\<rparr>"
    unfolding l2_def by (rule match_template_state)
  then have m2: "fst (match_template wd t2 s 230 (st\<lparr>logged := l1\<rparr>)) = st\<lparr>logged := l2\<rparr>"
    by simp
  have p: "probe_matches wd img st = (snd (match_template wd t1 s 230 st), snd (match_template wd t2 s 230 st))"
    by (simp add: probe_matches_def Let_def r8_def t1_def t2_def s_def)
  have "determine_hole_height wd img st =
       (let p1 = fst (probe_matches wd img st); p2 = snd (probe_matches wd img st);
            other = (if p_FilmType (project_config st) = ''R8'' then ''S8'' else ''R8'')
        in if snd p2 < snd p1 \<and> \<not> BatchJobRunning st then
             (if w_askyesno wd WrongFilmTypeDetected then
                (set_film_type wd
                   (st\<lparr>logged := l2, dialogs := dialogs st @ [WrongFilmTypeDetected],
                       film_type := other,
                       project_config := (project_config st)\<lparr>p_FilmType := other\<rparr>\<rparr>),
                 snd p1 - snd p2)
              else (st\<lparr>logged := l2, dialogs := dialogs st @ [WrongFilmTypeDetected]\<rparr>, snd p2 - snd p1))
           else (st\<lparr>logged := l2\<rparr>, snd p2 - snd p1))"
    unfolding determine_hole_height_def Let_def r8_def [symmetric] t1_def [symmetric] t2_def [symmetric]
      s_def [symmetric] split_beta m1 m2 p
    by (simp add: r8_def)
  then show ?thesis by (rule that)
qed

text \<open>
  C9. The probe \<open>determine_hole_height\<close> asks before it changes the film type, and does
  not ask while a batch job is running. For every call: while \<open>BatchJobRunning\<close> is set, or
  when the user answers no, the state after the call is the state before it but for
  lines added to the log and the question shown, so the configured film type, the Tk
  variable and the active template are as before, whichever pattern matched higher up;
  while \<open>BatchJobRunning\<close> is set no question is shown at all. Whenever the film type or
  the active template is different after the call, no batch job was running, the question
  \<open>Wrong film type detected\<close> was shown and the user answered yes.
\<close>

theorem determine_hole_height_suggestion_only:
  "(BatchJobRunning st \<or> \<not> w_askyesno wd WrongFilmTypeDetected \<longrightarrow>
      fst (determine_hole_height wd img st) =
        st\<lparr>logged := logged (fst (determine_hole_height wd img st)),
           dialogs := dialogs (fst (determine_hole_height wd img st))\<rparr>) \<and>
   (BatchJobRunning st \<longrightarrow> dialogs (fst (determine_hole_height wd img st)) = dialogs st) \<and>
   (p_FilmType (project_config (fst (determine_hole_height wd img st))) \<noteq> p_FilmType (project_config st) \<or>
    film_type (fst (determine_hole_height wd img st)) \<noteq> film_type st \<or>
    film_hole_template (fst (determine_hole_height wd img st)) \<noteq> film_hole_template st \<longrightarrow>
      \<not> BatchJobRunning st \<and> w_askyesno wd WrongFilmTypeDetected \<and>
      WrongFilmTypeDetected \<in> set (dialogs (fst (determine_hole_height wd img st))))"
proof -
  obtain l where d: "determine_hole_height wd img st =
       (let p1 = fst (probe_matches wd img st); p2 = snd (probe_matches wd img st);
            other = (if p_FilmType (project_config st) = ''R8'' then ''S8'' else ''R8'')
        in if snd p2 < snd p1 \<and> \<not> BatchJobRunning st then
             (if w_askyesno wd WrongFilmTypeDetected then
                (set_film_type wd
                   (st\<lparr>logged := l, dialogs := dialogs st @ [WrongFilmTypeDetected],
                       film_type := other,
                       project_config := (project_config st)\<lparr>p_FilmType := other\<rparr>\<rparr>),
                 snd p1 - snd p2)
              else (st\<lparr>logged := l, dialogs := dialogs st @ [WrongFilmTypeDetected]\<rparr>, snd p2 - snd p1))
           else (st\<lparr>logged := l\<rparr>, snd p2 - snd p1))"
    by (rule determine_hole_height_unfold)
  show ?thesis
  proof (cases "snd (snd (probe_matches wd img st)) < snd (fst (probe_matches wd img st)) \<and> \<not> BatchJobRunning st")
    case True
    show ?thesis
    proof (cases "w_askyesno wd WrongFilmTypeDetected")
      case yes: True
      have "WrongFilmTypeDetected \<in> set (dialogs (fst (determine_hole_height wd img st)))"
        unfolding d Let_def using True yes by simp
      then show ?thesis using True yes by simp
    next
      case no: False
      show ?thesis unfolding d Let_def using True no by simp
    qed
  next
    case False
    show ?thesis unfolding d Let_def using False by auto
  qed
qed

text \<open>The sample probe: pattern 9 is found in row 4, pattern 7 in row 1.\<close>

lemma probe_finds:
  "find_template hole_pattern (np_slice two_mark_frame 0 6 0 2) = (1, 4)"
  "find_template mark_pattern (np_slice two_mark_frame 0 6 0 2) = (1, 1)"
  "width (np_slice two_mark_frame 0 6 0 2) = 2" "height (np_slice two_mark_frame 0 6 0 2) = 6"
  by code_simp+

lemma mark_pattern_dims: "width mark_pattern = 1" "height mark_pattern = 1"
  by (simp_all add: mark_pattern_def)

lemma probe_state_fields:
  "HoleSearchTopLeft probe_state = (0, 0)" "HoleSearchBottomRight probe_state = (2, 6)"
  "film_bw_template probe_state = hole_pattern" "film_wb_template probe_state = mark_pattern"
  "p_FilmType (project_config probe_state) = ''S8''" "film_type probe_state = ''S8''"
  "\<not> BatchJobRunning probe_state" "dialogs probe_state = []"
  "film_hole_template probe_state = hole_pattern"
  "w_match yes_world = find_template" "w_askyesno yes_world WrongFilmTypeDetected"
  "\<not> w_askyesno sample_world WrongFilmTypeDetected"
  by (simp_all add: probe_state_def preview_state_def initial_state_def sample_world_def yes_world_def
      default_project_config_def)

lemma probe_matches_sample:
  "probe_matches yes_world two_mark_frame probe_state = ((1, 4), (1, 1))"
  by (simp add: probe_matches_def Let_def probe_state_fields get_image_left_stripe_def
      match_template_cases probe_finds hole_pattern_dims mark_pattern_dims)

lemma probe_changes_film_type:
  "p_FilmType (project_config (fst (determine_hole_height yes_world two_mark_frame probe_state))) = ''R8''"
proof -
  obtain l where d: "determine_hole_height yes_world two_mark_frame probe_state =
       (let p1 = fst (probe_matches yes_world two_mark_frame probe_state);
            p2 = snd (probe_matches yes_world two_mark_frame probe_state);
            other = (if p_FilmType (project_config probe_state) = ''R8'' then ''S8'' else ''R8'')
        in if snd p2 < snd p1 \<and> \<not> BatchJobRunning probe_state then
             (if w_askyesno yes_world WrongFilmTypeDetected then
                (set_film_type yes_world
                   (probe_state\<lparr>logged := l, dialogs := dialogs probe_state @ [WrongFilmTypeDetected],
                       film_type := other,
                       project_config := (project_config probe_state)\<lparr>p_FilmType := other\<rparr>\<rparr>),
                 snd p1 - snd p2)
              else (probe_state\<lparr>logged := l, dialogs := dialogs probe_state @ [WrongFilmTypeDetected]\<rparr>,
                    snd p2 - snd p1))
           else (probe_state\<lparr>logged := l\<rparr>, snd p2 - snd p1))"
    by (rule determine_hole_height_unfold)
  show ?thesis
    unfolding d by (simp add: Let_def probe_matches_sample probe_state_fields)
qed

theorem determine_hole_height_suggestion_only_witness:
  "BatchJobRunning (probe_state\<lparr>BatchJobRunning := True\<rparr>) \<and>
   p_FilmType (project_config (fst (determine_hole_height yes_world two_mark_frame
      (probe_state\<lparr>BatchJobRunning := True\<rparr>)))) = ''S8'' \<and>
   film_hole_template (fst (determine_hole_height yes_world two_mark_frame
      (probe_state\<lparr>BatchJobRunning := True\<rparr>))) = hole_pattern \<and>
   dialogs (fst (determine_hole_height yes_world two_mark_frame
      (probe_state\<lparr>BatchJobRunning := True\<rparr>))) = [] \<and>
   \<not> w_askyesno sample_world WrongFilmTypeDetected \<and>
   p_FilmType (project_config (fst (determine_hole_height sample_world two_mark_frame probe_state))) = ''S8'' \<and>
   p_FilmType (project_config (fst (determine_hole_height yes_world two_mark_frame probe_state))) \<noteq>
     p_FilmType (project_config probe_state) \<and>
   \<not> BatchJobRunning probe_state \<and> w_askyesno yes_world WrongFilmTypeDetected \<and>
   WrongFilmTypeDetected \<in> set (dialogs (fst (determine_hole_height yes_world two_mark_frame probe_state)))"
proof -
  have b: "BatchJobRunning (probe_state\<lparr>BatchJobRunning := True\<rparr>)"
    by simp
  have c: "p_FilmType (project_config (fst (determine_hole_height yes_world two_mark_frame probe_state))) \<noteq>
     p_FilmType (project_config probe_state)"
    by (simp add: probe_changes_film_type probe_state_fields)
  have f: "dialogs (probe_state\<lparr>BatchJobRunning := True\<rparr>) = []"
    by (simp add: probe_state_fields)
  have e1: "fst (determine_hole_height yes_world two_mark_frame (probe_state\<lparr>BatchJobRunning := True\<rparr>)) =
      (probe_state\<lparr>BatchJobRunning := True\<rparr>)
        \<lparr>logged := logged (fst (determine_hole_height yes_world two_mark_frame (probe_state\<lparr>BatchJobRunning := True\<rparr>))),
         dialogs := dialogs (fst (determine_hole_height yes_world two_mark_frame (probe_state\<lparr>BatchJobRunning := True\<rparr>)))\<rparr>"
    and e2: "dialogs (fst (determine_hole_height yes_world two_mark_frame (probe_state\<lparr>BatchJobRunning := True\<rparr>))) =
      dialogs (probe_state\<lparr>BatchJobRunning := True\<rparr>)"
    using determine_hole_height_suggestion_only
      [of "probe_state\<lparr>BatchJobRunning := True\<rparr>" yes_world two_mark_frame] b by blast+
  have e3: "fst (determine_hole_height sample_world two_mark_frame probe_state) =
      probe_state\<lparr>logged := logged (fst (determine_hole_height sample_world two_mark_frame probe_state)),
         dialogs := dialogs (fst (determine_hole_height sample_world two_mark_frame probe_state))\<rparr>"
    using determine_hole_height_suggestion_only [of probe_state sample_world two_mark_frame]
    by (simp add: probe_state_fields)
  have e4: "\<not> BatchJobRunning probe_state \<and> w_askyesno yes_world WrongFilmTypeDetected \<and>
      WrongFilmTypeDetected \<in> set (dialogs (fst (determine_hole_height yes_world two_mark_frame probe_state)))"
    using determine_hole_height_suggestion_only [of probe_state yes_world two_mark_frame] c by blast
  have g1: "p_FilmType (project_config (fst (determine_hole_height yes_world two_mark_frame
      (probe_state\<lparr>BatchJobRunning := True\<rparr>)))) = ''S8''"
    by (subst e1) (simp add: probe_state_fields)
  have g2: "film_hole_template (fst (determine_hole_height yes_world two_mark_frame
      (probe_state\<lparr>BatchJobRunning := True\<rparr>))) = hole_pattern"
    by (subst e1) (simp add: probe_state_fields)
  have g3: "p_FilmType (project_config (fst (determine_hole_height sample_world two_mark_frame probe_state))) = ''S8''"
    by (subst e3) (simp add: probe_state_fields)
  have g4: "dialogs (fst (determine_hole_height yes_world two_mark_frame
      (probe_state\<lparr>BatchJobRunning := True\<rparr>))) = []"
    using e2 f by simp
  have g5: "\<not> w_askyesno sample_world WrongFilmTypeDetected"
    by (simp add: probe_state_fields)
  from b g1 g2 g4 g5 g3 c e4 show ?thesis by blast
qed

section \<open>Properties of the frame pipeline controller\<close>

text \<open>What \<open>stabilize_image\<close> and the transforms do to the state: the log and the alert counter.\<close>

lemma stabilize_image_state:
  "fst (stabilize_image wd img st) =
     st\<lparr>logged := logged (fst (stabilize_image wd img st)),
        stabilization_bounds_alert_counter :=
          stabilization_bounds_alert_counter (fst (stabilize_image wd img st))\<rparr>"
  by (simp add: stabilize_image_unfold Let_def match_template_cases)

lemma transform_frame_stabilized:
  "perform_stabilization st \<Longrightarrow>
   fst (transform_frame wd img st) =
     fst (stabilize_image wd (if perform_rotation st then rotate_image wd st img else img) st)"
  by (simp add: transform_frame_def Let_def split_beta)

lemma transform_frame_state:
  "fst (transform_frame wd img st) =
     st\<lparr>logged := logged (fst (transform_frame wd img st)),
        stabilization_bounds_alert_counter :=
          stabilization_bounds_alert_counter (fst (transform_frame wd img st))\<rparr>"
proof (cases "perform_stabilization st")
  case True
  then show ?thesis
    using stabilize_image_state [of wd "if perform_rotation st then rotate_image wd st img else img" st]
    by (simp add: transform_frame_stabilized)
next
  case False
  then have "fst (transform_frame wd img st) = st"
    by (simp add: transform_frame_def Let_def split_beta)
  then show ?thesis by simp
qed

lemma transform_frame_fields:
  "StartFrame (fst (transform_frame wd img st)) = StartFrame st"
  "frames_to_encode (fst (transform_frame wd img st)) = frames_to_encode st"
  "CurrentFrame (fst (transform_frame wd img st)) = CurrentFrame st"
  "TargetDir (fst (transform_frame wd img st)) = TargetDir st"
  "first_absolute_frame (fst (transform_frame wd img st)) = first_absolute_frame st"
  "disk (fst (transform_frame wd img st)) = disk st"
  "written (fst (transform_frame wd img st)) = written st"
  "scheduled (fst (transform_frame wd img st)) = scheduled st"
  "project_config (fst (transform_frame wd img st)) = project_config st"
  "generate_video (fst (transform_frame wd img st)) = generate_video st"
  "BatchJobRunning (fst (transform_frame wd img st)) = BatchJobRunning st"
  "ConvertLoopExitRequested (fst (transform_frame wd img st)) = ConvertLoopExitRequested st"
  "CurrentJobEntry (fst (transform_frame wd img st)) = CurrentJobEntry st"
  "job_list (fst (transform_frame wd img st)) = job_list st"
  "raised (fst (transform_frame wd img st)) = raised st"
  by (subst transform_frame_state, simp)+

text \<open>One turn of the frame loop on a frame that decodes.\<close>

lemma frame_generation_loop_frame:
  assumes a1: "CurrentFrame st < StartFrame st + frames_to_encode st"
    and a2: "\<not> ConvertLoopExitRequested st"
    and a3: "py_index (SourceDirFileList st) (CurrentFrame st) = Some file"
    and a4: "w_imread wd file = Some img0"
    and nz: "frames_to_encode st \<noteq> 0"
  shows "frame_generation_loop wd st =
     (let st1 = fst (transform_frame wd img0 st);
          img = snd (transform_frame wd img0 st);
          cf = (if odd_dimension img then StartFrame st + frames_to_encode st - 1 else CurrentFrame st);
          target = path_join (TargetDir st) (FrameFilenameOutputPattern (first_absolute_frame st + cf))
      in st1\<lparr>logged := logged st1 @ (if odd_dimension img then [LogOddDimension] else []),
             CurrentFrame := cf + 1,
             disk := (if w_isdir wd (TargetDir st)
                      then (if target \<in> set (disk st) then disk st else disk st @ [target])
                      else disk st),
             written := (if w_isdir wd (TargetDir st) then written st @ [(target, img)] else written st),
             app_status_label :=
               (StatusGeneratingFrames
                  (of_int ((cf - StartFrame st) * 100) / of_int (frames_to_encode st)), Black),
             project_config := (project_config st)\<lparr>p_CurrentFrame := cf + 1\<rparr>,
             scheduled := scheduled st @ [FrameGenerationLoop]\<rparr>)"
  (is "_ = ?rhs")
proof -
  obtain st1 img where t: "transform_frame wd img0 st = (st1, img)"
    by (cases "transform_frame wd img0 st")
  have f: "StartFrame st1 = StartFrame st" "frames_to_encode st1 = frames_to_encode st"
    "CurrentFrame st1 = CurrentFrame st" "TargetDir st1 = TargetDir st"
    "first_absolute_frame st1 = first_absolute_frame st" "disk st1 = disk st"
    "written st1 = written st" "scheduled st1 = scheduled st"
    "project_config st1 = project_config st"
    using transform_frame_fields [of wd img0 st] unfolding t by simp_all
  have "frame_generation_loop wd st =
     (let st2 =
            (if int (width img) mod 2 = 1 \<or> int (height img) mod 2 = 1 then
               st1\<lparr>logged := logged st1 @ [LogOddDimension],
                   app_status_label := (StatusOddSize (CurrentFrame st1), Red),
                   CurrentFrame := StartFrame st1 + frames_to_encode st1 - 1\<rparr>
             else st1);
          st3 =
            (if w_isdir wd (TargetDir st2) then
               imwrite
                 (path_join (TargetDir st2)
                    (FrameFilenameOutputPattern (first_absolute_frame st2 + CurrentFrame st2)))
                 img st2
             else st2)
      in if frames_to_encode st3 = 0 then st3\<lparr>raised := True\<rparr>
         else
           frame_generation_next
             (st3\<lparr>app_status_label :=
                   (StatusGeneratingFrames
                      (of_int ((CurrentFrame st3 - StartFrame st3) * 100) /
                       of_int (frames_to_encode st3)), Black)\<rparr>))"
    using a1 a2 by (simp add: frame_generation_loop_def a3 a4 t)
  also have "\<dots> = ?rhs"
    using nz unfolding t fst_conv snd_conv odd_dimension_def
    by (cases "int (width img) mod 2 = 1 \<or> int (height img) mod 2 = 1"; cases "w_isdir wd (TargetDir st)")
       (simp_all add: Let_def f imwrite_def frame_generation_next_def)
  finally show ?thesis .
qed

text \<open>The turn of the frame loop after the last frame.\<close>

lemma generation_exit_fields [simp]:
  "app_status_label (generation_exit st) = app_status_label st"
  "logged (generation_exit st) = logged st"
  "written (generation_exit st) = written st"
  "disk (generation_exit st) = disk st"
  "spawned (generation_exit st) = spawned st"
  "removed (generation_exit st) = removed st"
  "dialogs (generation_exit st) = dialogs st"
  "ffmpeg_encoding_status (generation_exit st) = ffmpeg_encoding_status st"
  "ffmpeg_success (generation_exit st) = ffmpeg_success st"
  "\<not> ConvertLoopRunning (generation_exit st)"
  by (simp_all add: generation_exit_def Let_def split: job_ref.splits)

lemma generation_exit_batch:
  assumes "BatchJobRunning st" "\<not> ConvertLoopExitRequested st" "CurrentJobEntry st = Entry key"
    "key \<in> set (map fst (job_list st))"
  shows "generation_exit st =
     st\<lparr>ConvertLoopRunning := False, job_list := mark_done key (job_list st),
        scheduled := scheduled st @ [JobProcessingLoop], ConvertLoopExitRequested := False\<rparr>"
  using assms by (simp add: generation_exit_def Let_def)

lemma frame_generation_loop_finish:
  assumes "StartFrame st + frames_to_encode st \<le> CurrentFrame st"
  shows "frame_generation_loop wd st =
     (let st1 = st\<lparr>app_status_label := (StatusFrameGenerationOK, Green),
                   TargetDirFileList := glob_output (TargetDir st) (disk st)\<rparr>;
          st2 = (if generate_video st then
                   st1\<lparr>ffmpeg_success := False, ffmpeg_encoding_status := Pending,
                       scheduled := scheduled st1 @ [VideoGenerationLoop]\<rparr>
                 else generation_exit st1)
      in if raised st2 then st2 else st2\<lparr>CurrentFrame := CurrentFrame st2 - 1\<rparr>)"
  using assms by (simp add: frame_generation_loop_def Let_def)

lemma frame_generation_loop_finish_status:
  assumes "StartFrame st + frames_to_encode st \<le> CurrentFrame st"
  shows "app_status_label (frame_generation_loop wd st) = (StatusFrameGenerationOK, Green)"
    and "logged (frame_generation_loop wd st) = logged st"
    and "written (frame_generation_loop wd st) = written st"
  unfolding frame_generation_loop_finish [OF assms] Let_def by simp_all


subsection \<open>Overflow estimates, the alignment log line and the frame written (C2)\<close>

lemma stabilize_image_logged:
  "logged (fst (stabilize_image wd img st)) =
     logged (fst (match_template wd (film_hole_template st) (get_image_left_stripe st img)
                    (StabilizationThreshold st) st)) @
     (let a = stabilize_alignment st img (matched_in wd img st)
      in if ConvertLoopRunning st \<and> out_of_bounds a then
           [LogFrameAlignTag2 (project_name_tag st) (CurrentFrame st)
              (if missing_top a < 0 then missing_top a else - missing_bottom a) (move_y a) (move_x a)]
         else [])"
  by (simp add: stabilize_image_unfold Let_def)

lemma stabilize_image_outside_loop:
  "\<not> ConvertLoopRunning st \<Longrightarrow>
   fst (stabilize_image wd img st) =
     fst (match_template wd (film_hole_template st) (get_image_left_stripe st img)
            (StabilizationThreshold st) st)"
  by (simp add: stabilize_image_unfold Let_def)


lemma frame_turn_loop:
  assumes "frame_turn wd st img0"
  shows "frame_generation_loop wd st =
     (let st1 = fst (transform_frame wd img0 st);
          img = snd (transform_frame wd img0 st);
          cf = (if odd_dimension img then StartFrame st + frames_to_encode st - 1 else CurrentFrame st);
          target = path_join (TargetDir st) (FrameFilenameOutputPattern (first_absolute_frame st + cf))
      in st1\<lparr>logged := logged st1 @ (if odd_dimension img then [LogOddDimension] else []),
             CurrentFrame := cf + 1,
             disk := (if w_isdir wd (TargetDir st)
                      then (if target \<in> set (disk st) then disk st else disk st @ [target])
                      else disk st),
             written := (if w_isdir wd (TargetDir st) then written st @ [(target, img)] else written st),
             app_status_label :=
               (StatusGeneratingFrames
                  (of_int ((cf - StartFrame st) * 100) / of_int (frames_to_encode st)), Black),
             project_config := (project_config st)\<lparr>p_CurrentFrame := cf + 1\<rparr>,
             scheduled := scheduled st @ [FrameGenerationLoop]\<rparr>)"
proof -
  from assms obtain fname where
    f: "py_index (SourceDirFileList st) (CurrentFrame st) = Some fname" "w_imread wd fname = Some img0"
    by (auto simp: frame_turn_def split: option.splits)
  from assms have c: "CurrentFrame st < StartFrame st + frames_to_encode st"
    "\<not> ConvertLoopExitRequested st" "frames_to_encode st \<noteq> 0"
    by (auto simp: frame_turn_def)
  show ?thesis by (rule frame_generation_loop_frame [OF c(1) c(2) f c(3)])
qed

text \<open>
  C2, as the code has it. For every stabilized frame the overflow estimates are
  \<open>missing_bottom = frameHeight - cropBottom + move_y\<close> and \<open>missing_top = cropTop -
  move_y\<close>. Whenever one of them is negative while the conversion loop is running
  (\<open>ConvertLoopRunning\<close>), \<open>stabilize_image\<close> logs a \<open>FrameAlignTag-2\<close> warning with the frame
  number, the missing rows and the shift; outside the conversion loop (a preview) it
  adds no such line. In a turn of the frame loop that stabilizes a frame, the line is in
  the log after the turn, and the frame, out of bounds or not, is written to the target
  directory whenever that directory exists.
\<close>

theorem stabilize_image_overflow:
  "(let a = stabilize_alignment st img (matched_in wd img st)
    in missing_bottom a = of_nat (height img) - of_int (snd (CropBottomRight st)) + move_y a \<and>
       missing_top a = of_int (snd (CropTopLeft st)) - move_y a \<and>
       (ConvertLoopRunning st \<and> (missing_bottom a < 0 \<or> missing_top a < 0) \<longrightarrow>
          (\<exists>before. logged (fst (stabilize_image wd img st)) =
             before @ [LogFrameAlignTag2 (project_name_tag st) (CurrentFrame st)
                         (if missing_top a < 0 then missing_top a else - missing_bottom a)
                         (move_y a) (move_x a)])) \<and>
       (\<not> ConvertLoopRunning st \<longrightarrow>
          fst (stabilize_image wd img st) =
            fst (match_template wd (film_hole_template st) (get_image_left_stripe st img)
                   (StabilizationThreshold st) st))) \<and>
   (frame_turn wd st img0 \<and> perform_stabilization st \<and> ConvertLoopRunning st \<longrightarrow>
      (let a = stabilize_alignment st (stabilized_input wd st img0)
                 (matched_in wd (stabilized_input wd st img0) st)
       in (missing_bottom a < 0 \<or> missing_top a < 0 \<longrightarrow>
             LogFrameAlignTag2 (project_name_tag st) (CurrentFrame st)
               (if missing_top a < 0 then missing_top a else - missing_bottom a)
               (move_y a) (move_x a) \<in> set (logged (frame_generation_loop wd st))) \<and>
          (w_isdir wd (TargetDir st) \<longrightarrow>
             (\<exists>target. written (frame_generation_loop wd st) =
                written st @ [(target, snd (transform_frame wd img0 st))]))))"
proof -
  have 1: "missing_bottom a = of_nat (height img) - of_int (snd (CropBottomRight st)) + move_y a \<and>
       missing_top a = of_int (snd (CropTopLeft st)) - move_y a"
    if "a = stabilize_alignment st img (matched_in wd img st)" for a
    unfolding that by (simp add: stabilize_alignment_def Let_def)
  have 2: "\<exists>before. logged (fst (stabilize_image wd img st)) =
             before @ [LogFrameAlignTag2 (project_name_tag st) (CurrentFrame st)
                         (if missing_top a < 0 then missing_top a else - missing_bottom a)
                         (move_y a) (move_x a)]"
    if "a = stabilize_alignment st img (matched_in wd img st)"
      "ConvertLoopRunning st \<and> (missing_bottom a < 0 \<or> missing_top a < 0)" for a
    using that by (simp add: stabilize_image_logged out_of_bounds_def Let_def)
  have 3: "LogFrameAlignTag2 (project_name_tag st) (CurrentFrame st)
               (if missing_top a < 0 then missing_top a else - missing_bottom a)
               (move_y a) (move_x a) \<in> set (logged (frame_generation_loop wd st))"
    if t: "frame_turn wd st img0" and p: "perform_stabilization st" and c: "ConvertLoopRunning st"
      and a: "a = stabilize_alignment st (stabilized_input wd st img0)
                 (matched_in wd (stabilized_input wd st img0) st)"
      and o: "missing_bottom a < 0 \<or> missing_top a < 0" for a
  proof -
    have "LogFrameAlignTag2 (project_name_tag st) (CurrentFrame st)
               (if missing_top a < 0 then missing_top a else - missing_bottom a)
               (move_y a) (move_x a) \<in> set (logged (fst (transform_frame wd img0 st)))"
      using p c o unfolding a
      by (simp add: transform_frame_stabilized stabilize_image_logged out_of_bounds_def
          stabilized_input_def Let_def)
    then show ?thesis
      unfolding frame_turn_loop [OF t] Let_def by simp
  qed
  have 4: "\<exists>target. written (frame_generation_loop wd st) =
                written st @ [(target, snd (transform_frame wd img0 st))]"
    if t: "frame_turn wd st img0" and d: "w_isdir wd (TargetDir st)"
    unfolding frame_turn_loop [OF t] Let_def using d by simp
  show ?thesis
    using 1 2 3 4 stabilize_image_outside_loop [of st wd img]
    unfolding Let_def by blast
qed



lemma convert_state_fields:
  "HoleSearchTopLeft convert_state = (0, 0)" "HoleSearchBottomRight convert_state = (2, 6)"
  "film_hole_template convert_state = hole_pattern" "\<not> CustomTemplateDefined convert_state"
  "expected_pattern_pos convert_state = (13 / 2, 34)"
  "CropTopLeft convert_state = (0, 0)" "CropBottomRight convert_state = (10, 6)"
  "ConvertLoopRunning convert_state" "perform_stabilization convert_state"
  "\<not> perform_rotation convert_state" "\<not> perform_cropping convert_state"
  "SourceDirFileList convert_state = sample_files ''a''" "TargetDir convert_state = ''oa''"
  "StartFrame convert_state = 0" "frames_to_encode convert_state = 2" "CurrentFrame convert_state = 1"
  "\<not> ConvertLoopExitRequested convert_state" "written convert_state = []"
  "logged convert_state = []" "first_absolute_frame convert_state = 1"
  by (simp_all add: convert_state_def preview_state_def initial_state_def sample_world_def
      expected_pattern_pos_s8_def)

lemma sample_reads:
  "py_index (sample_files ''a'') 1 = Some ''a/picture-00002.jpg''"
  "py_index (sample_files ''d'') 1 = Some ''d/picture-00002.jpg''"
  "w_imread sample_world ''a/picture-00002.jpg'' = Some low_frame"
  "w_imread sample_world ''d/picture-00002.jpg'' = Some frame_1x1"
  "w_isdir sample_world ''oa''" "w_isdir sample_world ''od''" "\<not> w_isdir sample_world ''nowhere''"
  by (simp_all add: py_index_def sample_files_def sample_world_def)

lemma convert_state_turn: "frame_turn sample_world convert_state low_frame"
  by (simp add: frame_turn_def convert_state_fields sample_reads)

lemma convert_state_matched: "matched_in sample_world low_frame convert_state = (1, 4)"
  by (simp add: matched_in_def get_image_left_stripe_def convert_state_fields match_template_cases
      low_frame_stripe_dims hole_pattern_dims low_frame_find sample_w_match)

lemma convert_state_alignment:
  "move_x (stabilize_alignment convert_state low_frame (1, 4)) = 0"
  "move_y (stabilize_alignment convert_state low_frame (1, 4)) = - 2"
  "missing_bottom (stabilize_alignment convert_state low_frame (1, 4)) = - 2"
  "missing_top (stabilize_alignment convert_state low_frame (1, 4)) = 2"
  by (simp_all add: stabilize_alignment_def Let_def convert_state_fields low_frame_dims sample_rounds)

lemma preview_state_alignment:
  "missing_bottom (stabilize_alignment preview_state low_frame (1, 4)) = - 2"
  "missing_top (stabilize_alignment preview_state low_frame (1, 4)) = 2"
  by (simp_all add: stabilize_alignment_def Let_def sample_state_fields low_frame_dims sample_rounds)

theorem stabilize_image_overflow_witness:
  "ConvertLoopRunning convert_state \<and> perform_stabilization convert_state \<and>
   frame_turn sample_world convert_state low_frame \<and> w_isdir sample_world (TargetDir convert_state) \<and>
   missing_bottom (stabilize_alignment convert_state low_frame (1, 4)) = 6 - 6 + - 2 \<and>
   missing_top (stabilize_alignment convert_state low_frame (1, 4)) = 0 - - 2 \<and>
   logged (fst (stabilize_image sample_world low_frame convert_state)) =
     [LogFrameAlignTag2 ''No Project()'' 1 2 (- 2) 0] \<and>
   LogFrameAlignTag2 ''No Project()'' 1 2 (- 2) 0
     \<in> set (logged (frame_generation_loop sample_world convert_state)) \<and>
   (\<exists>target. written (frame_generation_loop sample_world convert_state) =
      [(target, snd (transform_frame sample_world low_frame convert_state))]) \<and>
   \<not> ConvertLoopRunning preview_state \<and>
   logged (fst (stabilize_image sample_world low_frame preview_state)) = []"
proof -
  have i: "stabilized_input sample_world convert_state low_frame = low_frame"
    by (simp add: stabilized_input_def convert_state_fields)
  have n: "project_name_tag convert_state = ''No Project()''"
    by (simp add: project_name_tag_def convert_state_def preview_state_def initial_state_def)
  have l: "logged (fst (stabilize_image sample_world low_frame convert_state)) =
     [LogFrameAlignTag2 ''No Project()'' 1 2 (- 2) 0]"
    by (simp add: stabilize_image_logged convert_state_matched convert_state_alignment out_of_bounds_def
        convert_state_fields n get_image_left_stripe_def match_template_cases low_frame_stripe_dims
        hole_pattern_dims)
  have p: "logged (fst (stabilize_image sample_world low_frame preview_state)) = []"
    using stabilize_image_overflow [of preview_state low_frame sample_world low_frame]
    by (simp add: Let_def sample_state_fields get_image_left_stripe_def match_template_cases
        low_frame_stripe_dims hole_pattern_dims)
  show ?thesis
    using stabilize_image_overflow [of convert_state low_frame sample_world low_frame]
      convert_state_turn l p
    by (simp add: Let_def i n convert_state_matched convert_state_alignment convert_state_fields
        sample_reads sample_state_fields)
qed

text \<open>
  The claim as stated fails twice. A frame stabilized outside the conversion loop, as a
  preview does, with two rows missing at the bottom, leaves no line in the log; and a
  frame of the conversion loop, equally out of bounds, is not written when the target
  directory does not exist.
\<close>

lemma nowhere_state_turn: "frame_turn sample_world nowhere_state low_frame"
  by (simp add: frame_turn_def nowhere_state_def convert_state_fields sample_reads)

theorem stabilize_image_overflow_counterexample:
  "missing_bottom (stabilize_alignment preview_state low_frame
     (matched_in sample_world low_frame preview_state)) < 0 \<and>
   logged (fst (stabilize_image sample_world low_frame preview_state)) = [] \<and>
   frame_turn sample_world nowhere_state low_frame \<and>
   perform_stabilization nowhere_state \<and> ConvertLoopRunning nowhere_state \<and>
   missing_bottom (stabilize_alignment nowhere_state low_frame
     (matched_in sample_world low_frame nowhere_state)) < 0 \<and>
   written (frame_generation_loop sample_world nowhere_state) = []"
proof -
  have p: "logged (fst (stabilize_image sample_world low_frame preview_state)) = []"
    by (simp add: stabilize_image_logged Let_def sample_state_fields get_image_left_stripe_def
        match_template_cases low_frame_stripe_dims hole_pattern_dims)
  have m: "matched_in sample_world low_frame nowhere_state = (1, 4)"
    by (simp add: matched_in_def get_image_left_stripe_def nowhere_state_def convert_state_fields
        match_template_cases low_frame_stripe_dims hole_pattern_dims low_frame_find sample_w_match)
  have a: "missing_bottom (stabilize_alignment nowhere_state low_frame (1, 4)) = - 2"
    by (simp add: stabilize_alignment_def Let_def nowhere_state_def convert_state_fields low_frame_dims
        sample_rounds)
  have w: "written (frame_generation_loop sample_world nowhere_state) = []"
    unfolding frame_turn_loop [OF nowhere_state_turn] Let_def
    by (simp add: transform_frame_fields) (simp add: nowhere_state_def convert_state_fields sample_reads)
  show ?thesis
    using p w nowhere_state_turn
    by (simp add: sample_matched preview_state_alignment m a)
       (simp add: nowhere_state_def convert_state_fields)
qed


subsection \<open>A frame of odd size in the frame loop (C5)\<close>

text \<open>The frame a turn produces does not depend on the callbacks waiting.\<close>

lemma stabilize_image_snd:
  "snd (stabilize_image wd img st) =
     w_warp wd img (move_x (stabilize_alignment st img (matched_in wd img st)),
                    move_y (stabilize_alignment st img (matched_in wd img st)))"
  by (simp add: stabilize_image_unfold Let_def)

lemma stabilize_image_crop_fields:
  "perform_cropping (fst (stabilize_image wd img st)) = perform_cropping st"
  "CropTopLeft (fst (stabilize_image wd img st)) = CropTopLeft st"
  "CropBottomRight (fst (stabilize_image wd img st)) = CropBottomRight st"
  by (subst stabilize_image_state, simp)+

lemma transform_frame_snd:
  "snd (transform_frame wd img0 st) =
     (let img2 = (if perform_stabilization st then snd (stabilize_image wd (stabilized_input wd st img0) st)
                  else stabilized_input wd st img0)
      in if perform_cropping st then crop_image img2 (CropTopLeft st) (CropBottomRight st)
         else even_image img2)"
proof (cases "perform_stabilization st")
  case True
  then show ?thesis
    by (simp add: transform_frame_def Let_def split_beta stabilized_input_def
        stabilize_image_crop_fields)
next
  case False
  then show ?thesis
    by (simp add: transform_frame_def Let_def split_beta stabilized_input_def)
qed

lemma matched_in_scheduled: "matched_in wd img (st\<lparr>scheduled := cbs\<rparr>) = matched_in wd img st"
  by (simp add: matched_in_def get_image_left_stripe_def match_template_cases)

lemma stabilize_alignment_scheduled:
  "stabilize_alignment (st\<lparr>scheduled := cbs\<rparr>) img m = stabilize_alignment st img m"
  by (simp add: stabilize_alignment_def Let_def)

lemma transform_frame_scheduled:
  "snd (transform_frame wd img (st\<lparr>scheduled := cbs\<rparr>)) = snd (transform_frame wd img st)"
  by (simp add: transform_frame_snd stabilize_image_snd matched_in_scheduled
      stabilize_alignment_scheduled stabilized_input_def rotate_image_def)

lemma frame_turn_scheduled: "frame_turn wd (st\<lparr>scheduled := cbs\<rparr>) img0 = frame_turn wd st img0"
  by (simp add: frame_turn_def)

lemma tick_frame_generation_loop:
  "\<not> raised st \<Longrightarrow> scheduled st = FrameGenerationLoop # rest \<Longrightarrow>
   tick wd stamp st = frame_generation_loop wd (st\<lparr>scheduled := rest\<rparr>)"
  by (simp add: tick_def)

text \<open>
  C5, as the code has it. A turn of the frame loop whose frame has an odd width or height
  after the transforms logs the error and sets \<open>CurrentFrame\<close> to the last frame of the
  range, so that the next turn ends the loop; but the red status of the frame is replaced
  in the same turn by the progress status, the frame is written under the number of the
  last frame of the range, and the next turn reports "Frame generation OK" in green. In a
  batch the job is then marked done and the job loop is scheduled: the queue goes on.
\<close>

theorem frame_generation_loop_odd_frame:
  assumes s: "scheduled st = [FrameGenerationLoop]" and r: "\<not> raised st"
    and t: "frame_turn wd st img0"
    and o: "odd_dimension (snd (transform_frame wd img0 st))"
  shows "LogOddDimension \<in> set (logged (run wd stamp 1 st)) \<and>
     CurrentFrame (run wd stamp 1 st) = StartFrame st + frames_to_encode st \<and>
     scheduled (run wd stamp 1 st) = [FrameGenerationLoop] \<and>
     app_status_label (run wd stamp 1 st) =
       (StatusGeneratingFrames (of_int ((frames_to_encode st - 1) * 100) / of_int (frames_to_encode st)),
        Black) \<and>
     (w_isdir wd (TargetDir st) \<longrightarrow>
        written (run wd stamp 1 st) =
          written st @
          [(path_join (TargetDir st)
              (FrameFilenameOutputPattern
                 (first_absolute_frame st + (StartFrame st + frames_to_encode st - 1))),
            snd (transform_frame wd img0 st))]) \<and>
     app_status_label (run wd stamp 2 st) = (StatusFrameGenerationOK, Green) \<and>
     logged (run wd stamp 2 st) = logged (run wd stamp 1 st) \<and>
     written (run wd stamp 2 st) = written (run wd stamp 1 st) \<and>
     (\<not> generate_video st \<and> BatchJobRunning st \<and> CurrentJobEntry st = Entry key \<and>
      key \<in> set (map fst (job_list st)) \<longrightarrow>
        job_list (run wd stamp 2 st) = mark_done key (job_list st) \<and>
        scheduled (run wd stamp 2 st) = [JobProcessingLoop] \<and>
        BatchJobRunning (run wd stamp 2 st) \<and> \<not> raised (run wd stamp 2 st))"
proof -
  define st0 where "st0 = st\<lparr>scheduled := []\<rparr>"
  define s1 where "s1 = frame_generation_loop wd st0"
  define s1' where "s1' = s1\<lparr>scheduled := []\<rparr>"
  define s2 where "s2 = frame_generation_loop wd s1'"
  have t0: "frame_turn wd st0 img0" using t by (simp add: st0_def frame_turn_scheduled)
  have o0: "odd_dimension (snd (transform_frame wd img0 st0))"
    using o by (simp add: st0_def transform_frame_scheduled)
  have i0: "snd (transform_frame wd img0 st0) = snd (transform_frame wd img0 st)"
    by (simp add: st0_def transform_frame_scheduled)
  have f0: "StartFrame st0 = StartFrame st" "frames_to_encode st0 = frames_to_encode st"
    "TargetDir st0 = TargetDir st" "first_absolute_frame st0 = first_absolute_frame st"
    "written st0 = written st" "scheduled st0 = []" "raised st0 = raised st"
    "generate_video st0 = generate_video st" "BatchJobRunning st0 = BatchJobRunning st"
    "CurrentJobEntry st0 = CurrentJobEntry st" "job_list st0 = job_list st"
    "ConvertLoopExitRequested st0 = ConvertLoopExitRequested st"
    by (simp_all add: st0_def)
  have x: "\<not> ConvertLoopExitRequested st" using t by (simp add: frame_turn_def)
  have e1: "run wd stamp 1 st = s1"
    using tick_frame_generation_loop [OF r s, of wd stamp]
    by (simp add: s1_def st0_def numeral_eq_Suc)
  have u1: "s1 =
     (fst (transform_frame wd img0 st0))
       \<lparr>logged := logged (fst (transform_frame wd img0 st0)) @ [LogOddDimension],
        CurrentFrame := StartFrame st + frames_to_encode st - 1 + 1,
        disk := (if w_isdir wd (TargetDir st)
                 then (if path_join (TargetDir st)
                            (FrameFilenameOutputPattern
                               (first_absolute_frame st + (StartFrame st + frames_to_encode st - 1)))
                          \<in> set (disk st0) then disk st0
                       else disk st0 @
                         [path_join (TargetDir st)
                            (FrameFilenameOutputPattern
                               (first_absolute_frame st + (StartFrame st + frames_to_encode st - 1)))])
                 else disk st0),
        written := (if w_isdir wd (TargetDir st)
                    then written st @
                      [(path_join (TargetDir st)
                          (FrameFilenameOutputPattern
                             (first_absolute_frame st + (StartFrame st + frames_to_encode st - 1))),
                        snd (transform_frame wd img0 st))]
                    else written st),
        app_status_label :=
          (StatusGeneratingFrames
             (of_int ((StartFrame st + frames_to_encode st - 1 - StartFrame st) * 100) /
              of_int (frames_to_encode st)), Black),
        project_config := (project_config st0)\<lparr>p_CurrentFrame := StartFrame st + frames_to_encode st - 1 + 1\<rparr>,
        scheduled := [FrameGenerationLoop]\<rparr>"
    unfolding s1_def frame_turn_loop [OF t0] Let_def using o0 by (simp add: f0 i0)
  have g1: "logged s1 = logged (fst (transform_frame wd img0 st0)) @ [LogOddDimension]"
    "CurrentFrame s1 = StartFrame st + frames_to_encode st"
    "scheduled s1 = [FrameGenerationLoop]"
    "app_status_label s1 =
       (StatusGeneratingFrames (of_int ((frames_to_encode st - 1) * 100) / of_int (frames_to_encode st)),
        Black)"
    "StartFrame s1 = StartFrame st" "frames_to_encode s1 = frames_to_encode st"
    "\<not> raised s1" "generate_video s1 = generate_video st" "BatchJobRunning s1 = BatchJobRunning st"
    "CurrentJobEntry s1 = CurrentJobEntry st" "job_list s1 = job_list st"
    "\<not> ConvertLoopExitRequested s1"
    by (subst u1, simp add: transform_frame_fields f0 r x)+
  have w1: "w_isdir wd (TargetDir st) \<Longrightarrow>
      written s1 = written st @
          [(path_join (TargetDir st)
              (FrameFilenameOutputPattern
                 (first_absolute_frame st + (StartFrame st + frames_to_encode st - 1))),
            snd (transform_frame wd img0 st))]"
    by (subst u1) simp
  have e2: "run wd stamp 2 st = s2"
    using tick_frame_generation_loop [of s1 "[]" wd stamp] g1(3,7) e1
    by (simp add: s2_def s1'_def numeral_eq_Suc)
  have fin: "StartFrame s1' + frames_to_encode s1' \<le> CurrentFrame s1'"
    by (simp add: s1'_def g1)
  have g2: "app_status_label s2 = (StatusFrameGenerationOK, Green)" "logged s2 = logged s1"
    "written s2 = written s1"
    using frame_generation_loop_finish_status [OF fin, of wd] by (simp_all add: s2_def s1'_def)
  have b: "job_list s2 = mark_done key (job_list st) \<and> scheduled s2 = [JobProcessingLoop] \<and>
      BatchJobRunning s2 \<and> \<not> raised s2"
    if h: "\<not> generate_video st" "BatchJobRunning st" "CurrentJobEntry st = Entry key"
      "key \<in> set (map fst (job_list st))"
  proof -
    let ?s = "s1'\<lparr>app_status_label := (StatusFrameGenerationOK, Green),
                  TargetDirFileList := glob_output (TargetDir s1') (disk s1')\<rparr>"
    have ge: "generation_exit ?s =
        ?s\<lparr>ConvertLoopRunning := False, job_list := mark_done key (job_list ?s),
           scheduled := scheduled ?s @ [JobProcessingLoop], ConvertLoopExitRequested := False\<rparr>"
      using h by (intro generation_exit_batch) (simp_all add: s1'_def g1)
    show ?thesis
      unfolding s2_def frame_generation_loop_finish [OF fin] Let_def
      by (simp add: ge) (simp add: s1'_def g1 h)
  qed
  show ?thesis
    unfolding e1 e2 using g1 g2 w1 b by simp
qed

lemma odd_state_fields:
  "scheduled odd_state = [FrameGenerationLoop]" "\<not> raised odd_state"
  "StartFrame odd_state = 0" "frames_to_encode odd_state = 3" "CurrentFrame odd_state = 1"
  "\<not> ConvertLoopExitRequested odd_state" "SourceDirFileList odd_state = sample_files ''d''"
  "\<not> perform_rotation odd_state" "\<not> perform_stabilization odd_state" "\<not> perform_cropping odd_state"
  "TargetDir odd_state = ''od''" "first_absolute_frame odd_state = 1" "written odd_state = []"
  "\<not> generate_video odd_state" "BatchJobRunning odd_state" "CurrentJobEntry odd_state = Entry ''job d''"
  "job_list odd_state = odd_job" "logged odd_state = []"
  by (simp_all add: odd_state_def initial_state_def)

lemma odd_state_frame: "transform_frame sample_world frame_1x1 odd_state = (odd_state, frame_1x1)"
  by (simp add: transform_frame_def odd_state_fields even_image_1x1)

lemma odd_frame_name: "FrameFilenameOutputPattern 3 = ''picture_out-00003.jpg''"
  by code_simp

theorem frame_generation_loop_odd_frame_witness:
  "scheduled odd_state = [FrameGenerationLoop] \<and> \<not> raised odd_state \<and>
   frame_turn sample_world odd_state frame_1x1 \<and>
   odd_dimension (snd (transform_frame sample_world frame_1x1 odd_state)) \<and>
   w_isdir sample_world (TargetDir odd_state) \<and>
   BatchJobRunning odd_state \<and> CurrentJobEntry odd_state = Entry ''job d'' \<and>
   LogOddDimension \<in> set (logged (run sample_world ''t'' 1 odd_state)) \<and>
   CurrentFrame (run sample_world ''t'' 1 odd_state) = 3 \<and>
   written (run sample_world ''t'' 2 odd_state) = [(''od/picture_out-00003.jpg'', frame_1x1)] \<and>
   app_status_label (run sample_world ''t'' 2 odd_state) = (StatusFrameGenerationOK, Green) \<and>
   job_list (run sample_world ''t'' 2 odd_state) =
     [(''job d'', \<lparr>job_project = sample_project ''d'' ''od'', done_flag = True\<rparr>)] \<and>
   scheduled (run sample_world ''t'' 2 odd_state) = [JobProcessingLoop]"
proof -
  have t: "frame_turn sample_world odd_state frame_1x1"
    by (simp add: frame_turn_def odd_state_fields sample_reads)
  have o: "odd_dimension (snd (transform_frame sample_world frame_1x1 odd_state))"
    by (simp add: odd_state_frame) (simp add: odd_dimension_def frame_1x1_def)
  have k: "''job d'' \<in> set (map fst (job_list odd_state))"
    by (simp add: odd_state_fields odd_job_def)
  have m: "mark_done ''job d'' odd_job =
      [(''job d'', \<lparr>job_project = sample_project ''d'' ''od'', done_flag = True\<rparr>)]"
    by (simp add: mark_done_def odd_job_def)
  have p: "path_join ''od'' ''picture_out-00003.jpg'' = ''od/picture_out-00003.jpg''"
    by code_simp
  show ?thesis
    using frame_generation_loop_odd_frame
      [of odd_state sample_world frame_1x1 "''t''" "''job d''", OF odd_state_fields(1,2) t o] t o k
    by (simp add: odd_state_fields sample_reads odd_state_frame odd_frame_name m p)
qed


section \<open>Properties of the encoder orchestrator\<close>

subsection \<open>The checks before the encoder is started (C6)\<close>

lemma generation_exit_scheduled:
  "scheduled (generation_exit st) = scheduled st \<or>
   scheduled (generation_exit st) = scheduled st @ [JobProcessingLoop]"
  by (simp add: generation_exit_def Let_def split: job_ref.splits)

lemma length_filter_all: "length (filter P xs) = length xs \<longleftrightarrow> (\<forall>x\<in>set xs. P x)"
  by (metis filter_id_conv length_filter_less nat_neq_iff)

text \<open>
  \<open>valid_generated_frame_range\<close> holds when the range is not negative and every file
  name of the range is in the list read from the target directory.
\<close>

lemma valid_generated_frame_range_iff:
  "valid_generated_frame_range st \<longleftrightarrow>
     0 \<le> frames_to_encode st \<and>
     (\<forall>i\<in>{first_absolute_frame st + StartFrame st ..
              first_absolute_frame st + StartFrame st + frames_to_encode st - 1}.
        path_join (TargetDir st) (FrameFilenameOutputPattern i) \<in> set (TargetDirFileList st))"
proof (cases "0 \<le> frames_to_encode st")
  case True
  then have l: "int (length [first_absolute_frame st + StartFrame st ..
      first_absolute_frame st + StartFrame st + frames_to_encode st - 1]) = frames_to_encode st"
    by simp
  have "valid_generated_frame_range st \<longleftrightarrow>
      int (length (filter (\<lambda>i. path_join (TargetDir st) (FrameFilenameOutputPattern i)
                                   \<in> set (TargetDirFileList st))
             [first_absolute_frame st + StartFrame st ..
              first_absolute_frame st + StartFrame st + frames_to_encode st - 1])) =
      int (length [first_absolute_frame st + StartFrame st ..
                   first_absolute_frame st + StartFrame st + frames_to_encode st - 1])"
    by (simp only: valid_generated_frame_range_def Let_def l)
  also have "\<dots> \<longleftrightarrow>
      (\<forall>i\<in>set [first_absolute_frame st + StartFrame st ..
                   first_absolute_frame st + StartFrame st + frames_to_encode st - 1].
         path_join (TargetDir st) (FrameFilenameOutputPattern i) \<in> set (TargetDirFileList st))"
    by (simp only: of_nat_eq_iff length_filter_all)
  finally show ?thesis using True by simp
next
  case False
  then show ?thesis by (simp add: valid_generated_frame_range_def Let_def)
qed

text \<open>The chain of callbacks is at rest when nothing is scheduled.\<close>

lemma run_idle: "scheduled st = [] \<Longrightarrow> run wd stamp n st = st"
  by (induction n) (simp_all add: tick_def)

text \<open>
  C6, as the code has it. When \<open>video_generation_loop\<close> finds the encoder pending, it
  starts it only if the frame range is not empty and every file name of the range is in
  the list of the target directory. Otherwise it sets the red status "No frames to
  encode", shows a warning, and calls \<open>generation_exit\<close>: no encoder is started, nothing
  is written or removed, the loop is not scheduled again, and \<open>ffmpeg_encoding_status\<close>
  stays \<open>Pending\<close>, with \<open>ffmpeg_success\<close> as it was. When both checks pass the encoder is
  started once, with the first absolute frame and the frame count, and the state becomes
  \<open>Running\<close>.
\<close>

theorem video_generation_loop_preconditions:
  assumes p: "ffmpeg_encoding_status st = Pending"
  shows "(frames_to_encode st = 0 \<or> \<not> valid_generated_frame_range st \<longrightarrow>
       spawned (video_generation_loop wd st) = spawned st \<and>
       written (video_generation_loop wd st) = written st \<and>
       disk (video_generation_loop wd st) = disk st \<and>
       removed (video_generation_loop wd st) = removed st \<and>
       app_status_label (video_generation_loop wd st) = (StatusNoFramesToEncode, Red) \<and>
       dialogs (video_generation_loop wd st) =
         dialogs st @ [if frames_to_encode st = 0 then NoFramesMatchRangeToGenerateVideo
                       else FramesMissing] \<and>
       ffmpeg_encoding_status (video_generation_loop wd st) = Pending \<and>
       ffmpeg_success (video_generation_loop wd st) = ffmpeg_success st \<and>
       \<not> ConvertLoopRunning (video_generation_loop wd st) \<and>
       (scheduled (video_generation_loop wd st) = scheduled st \<or>
        scheduled (video_generation_loop wd st) = scheduled st @ [JobProcessingLoop])) \<and>
     (frames_to_encode st \<noteq> 0 \<and> valid_generated_frame_range st \<longrightarrow>
       spawned (video_generation_loop wd st) =
         spawned st @ [(StartFrame st + first_absolute_frame st, frames_to_encode st)] \<and>
       ffmpeg_encoding_status (video_generation_loop wd st) = Running \<and>
       scheduled (video_generation_loop wd st) = scheduled st @ [VideoGenerationLoop]) \<and>
     (valid_generated_frame_range st \<longleftrightarrow>
        0 \<le> frames_to_encode st \<and>
        (\<forall>i\<in>{first_absolute_frame st + StartFrame st ..
                 first_absolute_frame st + StartFrame st + frames_to_encode st - 1}.
           path_join (TargetDir st) (FrameFilenameOutputPattern i) \<in> set (TargetDirFileList st)))"
proof -
  have a: ?thesis if z: "frames_to_encode st = 0"
  proof -
    let ?s = "st\<lparr>app_status_label := (StatusNoFramesToEncode, Red),
                 dialogs := dialogs st @ [NoFramesMatchRangeToGenerateVideo]\<rparr>"
    have v: "video_generation_loop wd st = generation_exit ?s"
      using p z by (simp add: video_generation_loop_def)
    show ?thesis
      unfolding v using generation_exit_scheduled [of ?s] valid_generated_frame_range_iff [of st] p z
      by simp
  qed
  have b: ?thesis if z: "frames_to_encode st \<noteq> 0" "\<not> valid_generated_frame_range st"
  proof -
    let ?s = "st\<lparr>app_status_label := (StatusNoFramesToEncode, Red),
                 dialogs := dialogs st @ [FramesMissing]\<rparr>"
    have v: "video_generation_loop wd st = generation_exit ?s"
      using p z by (simp add: video_generation_loop_def)
    show ?thesis
      unfolding v using generation_exit_scheduled [of ?s] valid_generated_frame_range_iff [of st] p z
      by simp
  qed
  have c: ?thesis if z: "frames_to_encode st \<noteq> 0" "valid_generated_frame_range st"
  proof -
    have v: "video_generation_loop wd st =
        (let st1 = call_ffmpeg_starts wd (st\<lparr>ffmpeg_success := False\<rparr>)
         in st1\<lparr>ffmpeg_encoding_status := Running,
                scheduled := scheduled st1 @ [VideoGenerationLoop]\<rparr>)"
      using p z by (simp add: video_generation_loop_def)
    show ?thesis
      unfolding v Let_def using valid_generated_frame_range_iff [of st] z
      by (simp add: call_ffmpeg_starts_def)
  qed
  from a b c show ?thesis by blast
qed

lemma encoder_state_fields:
  "ffmpeg_encoding_status pending_state = Pending" "frames_to_encode pending_state = 0"
  "spawned pending_state = []" "dialogs pending_state = []" "scheduled pending_state = []"
  "ffmpeg_encoding_status missing_state = Pending" "frames_to_encode missing_state = 2"
  "spawned missing_state = []" "dialogs missing_state = []" "scheduled missing_state = []"
  "first_absolute_frame missing_state = 1" "StartFrame missing_state = 0"
  "TargetDir missing_state = ''oa''"
  "TargetDirFileList missing_state = [''oa/picture_out-00001.jpg'']"
  "ffmpeg_encoding_status ready_state = Pending" "frames_to_encode ready_state = 2"
  "spawned ready_state = []" "scheduled ready_state = []"
  "first_absolute_frame ready_state = 1" "StartFrame ready_state = 0"
  "TargetDir ready_state = ''oa''"
  "TargetDirFileList ready_state = [''oa/picture_out-00001.jpg'', ''oa/picture_out-00002.jpg'']"
  "\<not> BatchJobRunning pending_state"
  by (simp_all add: pending_state_def missing_state_def ready_state_def initial_state_def)

lemma output_names:
  "path_join ''oa'' (FrameFilenameOutputPattern 1) = ''oa/picture_out-00001.jpg''"
  "path_join ''oa'' (FrameFilenameOutputPattern 2) = ''oa/picture_out-00002.jpg''"
  by code_simp+

lemma range_1_2: "[1..2::int] = [1, 2]"
  by code_simp

lemma missing_state_invalid: "\<not> valid_generated_frame_range missing_state"
  by (simp add: valid_generated_frame_range_def Let_def encoder_state_fields range_1_2 output_names)

lemma ready_state_valid: "valid_generated_frame_range ready_state"
  by (simp add: valid_generated_frame_range_def Let_def encoder_state_fields range_1_2 output_names)

theorem video_generation_loop_preconditions_witness:
  "ffmpeg_encoding_status pending_state = Pending \<and> frames_to_encode pending_state = 0 \<and>
   spawned (video_generation_loop sample_world pending_state) = [] \<and>
   dialogs (video_generation_loop sample_world pending_state) = [NoFramesMatchRangeToGenerateVideo] \<and>
   app_status_label (video_generation_loop sample_world pending_state) = (StatusNoFramesToEncode, Red) \<and>
   ffmpeg_encoding_status missing_state = Pending \<and> \<not> valid_generated_frame_range missing_state \<and>
   spawned (video_generation_loop sample_world missing_state) = [] \<and>
   dialogs (video_generation_loop sample_world missing_state) = [FramesMissing] \<and>
   ffmpeg_encoding_status ready_state = Pending \<and> valid_generated_frame_range ready_state \<and>
   spawned (video_generation_loop sample_world ready_state) = [(1, 2)] \<and>
   ffmpeg_encoding_status (video_generation_loop sample_world ready_state) = Running"
  using video_generation_loop_preconditions [of pending_state sample_world]
    video_generation_loop_preconditions [of missing_state sample_world]
    video_generation_loop_preconditions [of ready_state sample_world]
    missing_state_invalid ready_state_valid
  by (simp add: encoder_state_fields)

text \<open>
  The claim has the orchestrator go to \<open>Completed\<close> when a check fails. With no frame to
  encode the state is \<open>Pending\<close> after the call, nothing is scheduled, and however many
  turns of the event loop follow, it stays \<open>Pending\<close>.
\<close>

theorem video_generation_loop_pending_counterexample:
  "ffmpeg_encoding_status pending_state = Pending \<and> frames_to_encode pending_state = 0 \<and>
   spawned (video_generation_loop sample_world pending_state) = [] \<and>
   ffmpeg_encoding_status (video_generation_loop sample_world pending_state) \<noteq> Completed \<and>
   (\<forall>n. ffmpeg_encoding_status (run sample_world ''t'' n (video_generation_loop sample_world pending_state))
        = Pending)"
proof -
  let ?s = "pending_state\<lparr>app_status_label := (StatusNoFramesToEncode, Red),
                          dialogs := dialogs pending_state @ [NoFramesMatchRangeToGenerateVideo]\<rparr>"
  have v: "video_generation_loop sample_world pending_state = generation_exit ?s"
    by (simp add: video_generation_loop_def encoder_state_fields)
  have g: "generation_exit ?s = ?s\<lparr>ConvertLoopRunning := False, ConvertLoopExitRequested := False\<rparr>"
    by (simp add: generation_exit_def Let_def encoder_state_fields)
  have s: "scheduled (video_generation_loop sample_world pending_state) = []"
    unfolding v g by (simp add: encoder_state_fields)
  have e: "ffmpeg_encoding_status (video_generation_loop sample_world pending_state) = Pending"
    unfolding v by (simp add: encoder_state_fields)
  have w: "spawned (video_generation_loop sample_world pending_state) = []"
    unfolding v by (simp add: encoder_state_fields)
  show ?thesis
    using e w by (simp add: run_idle [OF s] encoder_state_fields)
qed

end
